theory Spec2Isabelle
  imports Complex_Main
begin

section \<open>Python values\<close>

text \<open>
  A Python \<^verbatim>\<open>str\<close> whose length and whitespace the scripts inspect (overviews, the
  model's answer, theme tags, keyword names, titles) is the list of its code points, so
  that \<open>length\<close> is Python's \<^verbatim>\<open>len\<close>. Identifiers that are only compared or
  concatenated (the record kind, URLs, dictionary keys, column names) are HOL strings.
  What \<^verbatim>\<open>print\<close> writes is not part of the model, but what its argument raises is:
  the two printed expressions of the keywords loop that can raise (the popularity
  formatted with \<^verbatim>\<open>:.1f\<close>, the first five keyword names joined) are modelled by their
  exception. Records have the \<^verbatim>\<open>id\<close>, \<^verbatim>\<open>title\<close> and \<^verbatim>\<open>kind\<close> of the store's
  select list; the popularity of a record, the name of a keyword and the overview of a
  response are JSON scalars, which may be null, and every key that the scripts read
  through \<^verbatim>\<open>.get\<close> or a subscript on a response may be missing.
\<close>

type_synonym pystr = "nat list"

definition lit :: "string \<Rightarrow> pystr" where
  "lit s = map of_char s"

text \<open>The code points \<^verbatim>\<open>str.strip()\<close> removes: those with \<^verbatim>\<open>str.isspace()\<close>.\<close>

definition isspace :: "nat \<Rightarrow> bool" where
  "isspace c \<longleftrightarrow>
     c \<in> set [9, 10, 11, 12, 13, 28, 29, 30, 31, 32, 133, 160, 5760, 8232, 8233, 8239, 8287, 12288]
     \<or> (8192 \<le> c \<and> c \<le> 8202)"

definition strip :: "pystr \<Rightarrow> pystr" where
  "strip s = rev (dropWhile isspace (rev (dropWhile isspace s)))"

text \<open>\<^verbatim>\<open>s.split(sep)\<close> for a one-character separator: \<open>n\<close> separators give \<open>n + 1\<close> pieces.\<close>

fun py_split :: "'a \<Rightarrow> 'a list \<Rightarrow> 'a list list" where
  "py_split sep [] = [[]]"
| "py_split sep (c # cs) =
     (if c = sep then [] # py_split sep cs
      else (case py_split sep cs of
              [] \<Rightarrow> [[c]]
            | p # ps \<Rightarrow> (c # p) # ps))"

text \<open>\<^verbatim>\<open>sep.join(pieces)\<close>.\<close>

fun py_join :: "'a list \<Rightarrow> 'a list list \<Rightarrow> 'a list" where
  "py_join sep [] = []"
| "py_join sep [p] = p"
| "py_join sep (p # q # ps) = p @ sep @ py_join sep (q # ps)"

definition dict_get :: "('k \<rightharpoonup> 'v) \<Rightarrow> 'k \<Rightarrow> 'v \<Rightarrow> 'v" where
  "dict_get d k dflt = (case d k of None \<Rightarrow> dflt | Some v \<Rightarrow> v)"

text \<open>\<^verbatim>\<open>f"{n}"\<close> for an integer: its decimal digits, with a sign when negative.\<close>

definition digit_char :: "nat \<Rightarrow> char" where
  "digit_char d = ''0123456789'' ! d"

function str_nat :: "nat \<Rightarrow> string" where
  "str_nat n = (if n < 10 then [digit_char n] else str_nat (n div 10) @ [digit_char (n mod 10)])"
  by pat_completeness auto
termination
  by (relation "measure id") auto

declare str_nat.simps [simp del]

definition str_int :: "int \<Rightarrow> string" where
  "str_int i = (if i < 0 then CHR ''-'' # str_nat (nat (- i)) else str_nat (nat i))"

datatype py_exc =
    RequestException
  | JSONDecodeError
  | KeyError
  | TypeError
  | ValueError
  | AttributeError
  | IndexError
  | APIError
  | StoreError
  | ZeroDivisionError

section \<open>The outside world\<close>

text \<open>
  The store is the \<^verbatim>\<open>titles\<close> table: a row per identifier, a row being its non-null
  columns. The trace lists, in order, every request, store update and sleep the scripts
  perform.
\<close>

text \<open>A JSON scalar as Python holds it: \<^verbatim>\<open>None\<close>, a number or a string.\<close>

datatype jval = JNull | JNumber rat | JString pystr

fun is_str :: "jval \<Rightarrow> bool" where
  "is_str (JString s) = True"
| "is_str v = False"

datatype colval = TextVal pystr | ListVal "jval list"

datatype event =
    HttpGet string
  | ClaudeCreate pystr pystr "pystr list"
  | DbUpdate string int colval
  | Sleep rat

type_synonym row = "string \<rightharpoonup> colval"

record world =
  store :: "int \<rightharpoonup> row"
  trace :: "event list"

text \<open>
  What \<^verbatim>\<open>requests.get\<close> meets: no answer at all (connection error, timeout), or an
  answer with its status code and its body parsed as JSON (\<open>None\<close> when it does not
  parse).
\<close>

datatype 'b http_result = ConnectionFailed | Replied nat "'b option"

type_synonym kw_obj = "string \<rightharpoonup> jval"
type_synonym kw_body = "string \<rightharpoonup> kw_obj list"
type_synonym details_body = "string \<rightharpoonup> jval"

text \<open>
  \<^verbatim>\<open>claude.messages.create\<close>: an exception, or a message, given by the texts of its
  content blocks.
\<close>

datatype claude_result = ApiFailed | Message "pystr list"

text \<open>
  The environment of a run. The metadata API answers a URL; the client \<open>claude\<close> is
  \<open>None\<close> when no API key is configured, and otherwise answers the prompt built from
  title, overview and genres; \<open>db_execute_raises\<close> tells whether the store rejects an
  update (column, identifier, value) in the current state of the world.
\<close>

record env =
  tmdb_keywords :: "string \<Rightarrow> kw_body http_result"
  tmdb_details :: "string \<Rightarrow> details_body http_result"
  claude :: "(pystr \<Rightarrow> pystr \<Rightarrow> pystr list \<Rightarrow> claude_result) option"
  db_execute_raises :: "world \<Rightarrow> string \<Rightarrow> int \<Rightarrow> colval \<Rightarrow> bool"

definition log_event :: "event \<Rightarrow> world \<Rightarrow> world" where
  "log_event e w = w\<lparr>trace := trace w @ [e]\<rparr>"

text \<open>\<^verbatim>\<open>time.sleep(d)\<close>.\<close>

definition sleep :: "rat \<Rightarrow> world \<Rightarrow> world" where
  "sleep d w = log_event (Sleep d) w"

text \<open>
  \<^verbatim>\<open>requests.get(...)\<close>, \<^verbatim>\<open>raise_for_status()\<close> and \<^verbatim>\<open>response.json()\<close>: a
  status from 400 to 599 raises \<^verbatim>\<open>HTTPError\<close>, a \<^verbatim>\<open>RequestException\<close>.
\<close>

definition http_get_json :: "'b http_result \<Rightarrow> py_exc + 'b" where
  "http_get_json r =
     (case r of
        ConnectionFailed \<Rightarrow> Inl RequestException
      | Replied status body \<Rightarrow>
          if 400 \<le> status \<and> status < 600 then Inl RequestException
          else (case body of None \<Rightarrow> Inl JSONDecodeError | Some data \<Rightarrow> Inr data))"

text \<open>
  \<^verbatim>\<open>supabase.table("titles").update({col: v}).eq("id", title_id).execute()\<close>: the
  rows with that identifier get the column set, unless the store raises.
\<close>

definition db_update :: "env \<Rightarrow> string \<Rightarrow> int \<Rightarrow> colval \<Rightarrow> world \<Rightarrow> (py_exc + unit) \<times> world" where
  "db_update e col tid v w =
     (let w' = log_event (DbUpdate col tid v) w in
      if db_execute_raises e w col tid v then (Inl StoreError, w')
      else (case store w' tid of
              None \<Rightarrow> (Inr (), w')
            | Some r \<Rightarrow> (Inr (), w'\<lparr>store := (store w')(tid \<mapsto> r(col \<mapsto> v))\<rparr>)))"

text \<open>
  A record of a batch, as the store's select returns it. The popularity is \<open>None\<close> when
  the dictionary has no such key, and \<open>Some JNull\<close> when the column is null; a null
  overview or genres column is \<open>None\<close>.
\<close>

record title_row =
  title_id :: int
  title_name :: pystr
  kind :: string
  popularity :: "jval option"
  overview :: "pystr option"
  genres :: "pystr list option"

section \<open>backfill\_keywords.py\<close>

definition RATE_LIMIT_DELAY :: rat where
  "RATE_LIMIT_DELAY = 1 / 4"

definition keywords_url :: "int \<Rightarrow> string \<Rightarrow> string" where
  "keywords_url tmdb_id knd =
     (if knd = ''movie''
      then ''https://api.themoviedb.org/3/movie/'' @ str_int tmdb_id @ ''/keywords''
      else ''https://api.themoviedb.org/3/tv/'' @ str_int tmdb_id @ ''/keywords'')"

text \<open>\<^verbatim>\<open>[kw["name"] for kw in kws]\<close>: a keyword object without a name raises.\<close>

fun kw_names :: "kw_obj list \<Rightarrow> py_exc + jval list" where
  "kw_names [] = Inr []"
| "kw_names (kw # kws) =
     (case kw ''name'' of
        None \<Rightarrow> Inl KeyError
      | Some n \<Rightarrow> (case kw_names kws of Inl ex \<Rightarrow> Inl ex | Inr ns \<Rightarrow> Inr (n # ns)))"

text \<open>The body of the \<^verbatim>\<open>try\<close> of \<^verbatim>\<open>fetch_tmdb_keywords\<close>.\<close>

definition fetch_tmdb_keywords_try :: "env \<Rightarrow> int \<Rightarrow> string \<Rightarrow> py_exc + jval list option" where
  "fetch_tmdb_keywords_try e tmdb_id knd =
     (case http_get_json (tmdb_keywords e (keywords_url tmdb_id knd)) of
        Inl ex \<Rightarrow> Inl ex
      | Inr data \<Rightarrow>
          (case (if knd = ''movie'' then kw_names (dict_get data ''keywords'' [])
                 else kw_names (dict_get data ''results'' [])) of
             Inl ex \<Rightarrow> Inl ex
           | Inr keywords \<Rightarrow> Inr (if keywords \<noteq> [] then Some keywords else None)))"

text \<open>Its two handlers: both print and return \<^verbatim>\<open>None\<close>.\<close>

definition fetch_tmdb_keywords :: "env \<Rightarrow> int \<Rightarrow> string \<Rightarrow> world \<Rightarrow> jval list option \<times> world" where
  "fetch_tmdb_keywords e tmdb_id knd w =
     (let w' = log_event (HttpGet (keywords_url tmdb_id knd)) w in
      case fetch_tmdb_keywords_try e tmdb_id knd of
        Inl ex \<Rightarrow> (if ex = RequestException then (None, w') else (None, w'))
      | Inr r \<Rightarrow> (r, w'))"

definition update_keywords_in_db :: "env \<Rightarrow> int \<Rightarrow> jval list \<Rightarrow> world \<Rightarrow> bool \<times> world" where
  "update_keywords_in_db e tid keywords w =
     (case db_update e ''keywords'' tid (ListVal keywords) w of
        (Inr u, w') \<Rightarrow> (True, w')
      | (Inl ex, w') \<Rightarrow> (False, w'))"

text \<open>
  The statistics dictionary of \<^verbatim>\<open>backfill_keywords_batch\<close>, with keys \<^verbatim>\<open>total\<close>,
  \<^verbatim>\<open>success\<close>, \<^verbatim>\<open>no_keywords_found\<close>, \<^verbatim>\<open>api_error\<close> and \<^verbatim>\<open>db_error\<close>.
\<close>

record kw_stats =
  kw_total :: nat
  kw_success :: nat
  kw_no_keywords_found :: nat
  kw_api_error :: nat
  kw_db_error :: nat

text \<open>
  \<^verbatim>\<open>f"{v:.1f}"\<close>: a number is formatted, \<^verbatim>\<open>None\<close> raises \<^verbatim>\<open>TypeError\<close> and a
  string \<^verbatim>\<open>ValueError\<close>.
\<close>

definition format_1f :: "jval \<Rightarrow> py_exc + unit" where
  "format_1f v =
     (case v of JNumber r \<Rightarrow> Inr () | JNull \<Rightarrow> Inl TypeError | JString t \<Rightarrow> Inl ValueError)"

text \<open>
  The progress line of an iteration, with
  \<^verbatim>\<open>popularity = title.get("popularity", 0)\<close> formatted as \<^verbatim>\<open>{popularity:.1f}\<close>. It is
  printed before the fetch, outside any \<^verbatim>\<open>try\<close>.
\<close>

definition print_processing :: "title_row \<Rightarrow> py_exc + unit" where
  "print_processing title =
     format_1f (case popularity title of None \<Rightarrow> JNumber 0 | Some v \<Rightarrow> v)"

text \<open>
  The line that reports the keywords found, with \<^verbatim>\<open>', '.join(keywords[:5])\<close>: the join
  raises \<^verbatim>\<open>TypeError\<close> on an item that is not a string. It is printed after the fetch,
  outside any \<^verbatim>\<open>try\<close>.
\<close>

definition print_found :: "jval list \<Rightarrow> py_exc + unit" where
  "print_found keywords =
     (if list_all is_str (take 5 keywords) then Inr () else Inl TypeError)"

text \<open>
  One iteration of the loop of \<^verbatim>\<open>backfill_keywords_batch\<close>: the new statistics, or
  the exception that leaves the loop and the function. The two \<^verbatim>\<open>continue\<close> branches
  leave the iteration before the sleep at its end.
\<close>

definition keywords_iteration ::
  "env \<Rightarrow> bool \<Rightarrow> title_row \<Rightarrow> kw_stats \<times> world \<Rightarrow> (py_exc + kw_stats) \<times> world" where
  "keywords_iteration e dry_run title sw =
     (case sw of (stats, w) \<Rightarrow>
        (case print_processing title of
           Inl ex \<Rightarrow> (Inl ex, w)
         | Inr u \<Rightarrow>
             (case fetch_tmdb_keywords e (title_id title) (kind title) w of
                (None, w1) \<Rightarrow> (Inr (stats\<lparr>kw_api_error := kw_api_error stats + 1\<rparr>), w1)
              | (Some keywords, w1) \<Rightarrow>
                  if keywords = []
                  then (Inr (stats\<lparr>kw_no_keywords_found := kw_no_keywords_found stats + 1\<rparr>), w1)
                  else
                    (case print_found keywords of
                       Inl ex \<Rightarrow> (Inl ex, w1)
                     | Inr u' \<Rightarrow>
                         if \<not> dry_run then
                           (case update_keywords_in_db e (title_id title) keywords w1 of
                              (True, w2) \<Rightarrow>
                                (Inr (stats\<lparr>kw_success := kw_success stats + 1\<rparr>),
                                 sleep RATE_LIMIT_DELAY w2)
                            | (False, w2) \<Rightarrow>
                                (Inr (stats\<lparr>kw_db_error := kw_db_error stats + 1\<rparr>),
                                 sleep RATE_LIMIT_DELAY w2))
                         else (Inr (stats\<lparr>kw_success := kw_success stats + 1\<rparr>),
                               sleep RATE_LIMIT_DELAY w1)))))"

text \<open>The loop: an exception of an iteration ends it, and no later record is processed.\<close>

fun keywords_loop ::
  "env \<Rightarrow> bool \<Rightarrow> title_row list \<Rightarrow> kw_stats \<times> world \<Rightarrow> (py_exc + kw_stats) \<times> world" where
  "keywords_loop e dry_run [] sw = (Inr (fst sw), snd sw)"
| "keywords_loop e dry_run (title # titles) sw =
     (case keywords_iteration e dry_run title sw of
        (Inl ex, w') \<Rightarrow> (Inl ex, w')
      | (Inr stats', w') \<Rightarrow> keywords_loop e dry_run titles (stats', w'))"

text \<open>\<^verbatim>\<open>backfill_keywords_batch\<close>: the statistics it returns, or the exception it raises.\<close>

definition backfill_keywords_batch ::
  "env \<Rightarrow> title_row list \<Rightarrow> bool \<Rightarrow> world \<Rightarrow> (py_exc + kw_stats) \<times> world" where
  "backfill_keywords_batch e titles dry_run w =
     keywords_loop e dry_run titles
       (\<lparr>kw_total = length titles, kw_success = 0, kw_no_keywords_found = 0,
         kw_api_error = 0, kw_db_error = 0\<rparr>, w)"

text \<open>
  \<^verbatim>\<open>print_stats\<close> of the keywords script: the value of its success-rate line, as an
  exact quotient (the formatting to one decimal is not modelled). The division is not
  guarded.
\<close>

definition print_stats_keywords :: "kw_stats \<Rightarrow> py_exc + rat" where
  "print_stats_keywords stats =
     (if kw_total stats = 0 then Inl ZeroDivisionError
      else Inr (of_nat (kw_success stats) / of_nat (kw_total stats) * 100))"

section \<open>backfill\_themes\_overview.py\<close>

definition TMDB_RATE_LIMIT_DELAY :: rat where
  "TMDB_RATE_LIMIT_DELAY = 1 / 4"

definition CLAUDE_RATE_LIMIT_DELAY :: rat where
  "CLAUDE_RATE_LIMIT_DELAY = 1"

definition overview_url :: "int \<Rightarrow> string \<Rightarrow> string" where
  "overview_url tmdb_id knd =
     (if knd = ''movie''
      then ''https://api.themoviedb.org/3/movie/'' @ str_int tmdb_id
      else ''https://api.themoviedb.org/3/tv/'' @ str_int tmdb_id)"

text \<open>The body of the \<^verbatim>\<open>try\<close> of \<^verbatim>\<open>fetch_tmdb_overview\<close>.\<close>

definition fetch_tmdb_overview_try :: "env \<Rightarrow> int \<Rightarrow> string \<Rightarrow> py_exc + pystr option" where
  "fetch_tmdb_overview_try e tmdb_id knd =
     (case http_get_json (tmdb_details e (overview_url tmdb_id knd)) of
        Inl ex \<Rightarrow> Inl ex
      | Inr data \<Rightarrow>
          (case dict_get data ''overview'' (JString []) of
             JString raw \<Rightarrow>
               (let ov = strip raw in Inr (if ov \<noteq> [] then Some ov else None))
           | JNull \<Rightarrow> Inl AttributeError
           | JNumber r \<Rightarrow> Inl AttributeError))"

definition fetch_tmdb_overview :: "env \<Rightarrow> int \<Rightarrow> string \<Rightarrow> world \<Rightarrow> pystr option \<times> world" where
  "fetch_tmdb_overview e tmdb_id knd w =
     (let w' = log_event (HttpGet (overview_url tmdb_id knd)) w in
      case fetch_tmdb_overview_try e tmdb_id knd of
        Inl ex \<Rightarrow> (if ex = RequestException then (None, w') else (None, w'))
      | Inr r \<Rightarrow> (r, w'))"

text \<open>
  Lines 112 to 118 of \<^verbatim>\<open>generate_themes_with_claude\<close>: from the text of the first
  content block to the returned themes. The comma is code point 44.
\<close>

definition themes_from_text :: "pystr \<Rightarrow> pystr list option" where
  "themes_from_text block =
     (let themes_text = strip block;
          themes = map strip (py_split 44 themes_text);
          themes = filter (\<lambda>t. t \<noteq> [] \<and> length t > 2 \<and> length t < 50) themes
      in if themes \<noteq> [] then Some (take 5 themes) else None)"

text \<open>
  The body of its \<^verbatim>\<open>try\<close>: building the prompt joins the genres (a \<^verbatim>\<open>TypeError\<close>
  when the column is null), the call may raise, and \<^verbatim>\<open>message.content[0]\<close> needs a
  first block.
\<close>

definition generate_themes_try ::
  "(pystr \<Rightarrow> pystr \<Rightarrow> pystr list \<Rightarrow> claude_result) \<Rightarrow> pystr \<Rightarrow> pystr \<Rightarrow> pystr list option \<Rightarrow> world
     \<Rightarrow> (py_exc + pystr list option) \<times> world" where
  "generate_themes_try create title ov gs w =
     (case gs of
        None \<Rightarrow> (Inl TypeError, w)
      | Some g \<Rightarrow>
          (let w' = log_event (ClaudeCreate title ov g) w in
           case create title ov g of
             ApiFailed \<Rightarrow> (Inl APIError, w')
           | Message content \<Rightarrow>
               (case content of
                  [] \<Rightarrow> (Inl IndexError, w')
                | block # rest \<Rightarrow> (Inr (themes_from_text block), w'))))"

definition generate_themes_with_claude ::
  "env \<Rightarrow> pystr \<Rightarrow> pystr \<Rightarrow> pystr list option \<Rightarrow> world \<Rightarrow> pystr list option \<times> world" where
  "generate_themes_with_claude e title ov gs w =
     (case claude e of
        None \<Rightarrow> (None, w)
      | Some create \<Rightarrow>
          (case generate_themes_try create title ov gs w of
             (Inl ex, w') \<Rightarrow> (None, w')
           | (Inr r, w') \<Rightarrow> (r, w')))"

definition update_overview_in_db :: "env \<Rightarrow> int \<Rightarrow> pystr \<Rightarrow> world \<Rightarrow> bool \<times> world" where
  "update_overview_in_db e tid ov w =
     (case db_update e ''overview'' tid (TextVal ov) w of
        (Inr u, w') \<Rightarrow> (True, w')
      | (Inl ex, w') \<Rightarrow> (False, w'))"

definition update_themes_in_db :: "env \<Rightarrow> int \<Rightarrow> pystr list \<Rightarrow> world \<Rightarrow> bool \<times> world" where
  "update_themes_in_db e tid themes w =
     (case db_update e ''themes'' tid (ListVal (map JString themes)) w of
        (Inr u, w') \<Rightarrow> (True, w')
      | (Inl ex, w') \<Rightarrow> (False, w'))"

text \<open>
  The statistics of \<^verbatim>\<open>backfill_overviews\<close> (keys \<^verbatim>\<open>total\<close>, \<^verbatim>\<open>success\<close>,
  \<^verbatim>\<open>not_found\<close>, \<^verbatim>\<open>error\<close>) and of \<^verbatim>\<open>backfill_themes\<close> (keys \<^verbatim>\<open>total\<close>,
  \<^verbatim>\<open>success\<close>, \<^verbatim>\<open>no_overview\<close>, \<^verbatim>\<open>error\<close>).
\<close>

record ov_stats =
  ov_total :: nat
  ov_success :: nat
  ov_not_found :: nat
  ov_error :: nat

record th_stats =
  th_total :: nat
  th_success :: nat
  th_no_overview :: nat
  th_error :: nat

definition overviews_iteration :: "env \<Rightarrow> bool \<Rightarrow> title_row \<Rightarrow> ov_stats \<times> world \<Rightarrow> ov_stats \<times> world" where
  "overviews_iteration e dry_run title sw =
     (case sw of (stats, w) \<Rightarrow>
        (case fetch_tmdb_overview e (title_id title) (kind title) w of
           (None, w1) \<Rightarrow> (stats\<lparr>ov_error := ov_error stats + 1\<rparr>, w1)
         | (Some ov, w1) \<Rightarrow>
             if ov = [] then (stats\<lparr>ov_not_found := ov_not_found stats + 1\<rparr>, w1)
             else if \<not> dry_run then
               (case update_overview_in_db e (title_id title) ov w1 of
                  (True, w2) \<Rightarrow> (stats\<lparr>ov_success := ov_success stats + 1\<rparr>, sleep TMDB_RATE_LIMIT_DELAY w2)
                | (False, w2) \<Rightarrow> (stats\<lparr>ov_error := ov_error stats + 1\<rparr>, sleep TMDB_RATE_LIMIT_DELAY w2))
             else (stats\<lparr>ov_success := ov_success stats + 1\<rparr>, sleep TMDB_RATE_LIMIT_DELAY w1)))"

fun overviews_loop :: "env \<Rightarrow> bool \<Rightarrow> title_row list \<Rightarrow> ov_stats \<times> world \<Rightarrow> ov_stats \<times> world" where
  "overviews_loop e dry_run [] sw = sw"
| "overviews_loop e dry_run (title # titles) sw =
     overviews_loop e dry_run titles (overviews_iteration e dry_run title sw)"

definition backfill_overviews :: "env \<Rightarrow> title_row list \<Rightarrow> bool \<Rightarrow> world \<Rightarrow> ov_stats \<times> world" where
  "backfill_overviews e titles dry_run w =
     overviews_loop e dry_run titles
       (\<lparr>ov_total = length titles, ov_success = 0, ov_not_found = 0, ov_error = 0\<rparr>, w)"

text \<open>
  One iteration of the loop of \<^verbatim>\<open>backfill_themes\<close>: \<^verbatim>\<open>not overview\<close> holds of a
  null and of an empty overview, \<^verbatim>\<open>not themes\<close> of \<^verbatim>\<open>None\<close> and of an empty list.
\<close>

definition themes_iteration :: "env \<Rightarrow> bool \<Rightarrow> title_row \<Rightarrow> th_stats \<times> world \<Rightarrow> th_stats \<times> world" where
  "themes_iteration e dry_run title sw =
     (case sw of (stats, w) \<Rightarrow>
        (case overview title of
           None \<Rightarrow> (stats\<lparr>th_no_overview := th_no_overview stats + 1\<rparr>, w)
         | Some ov \<Rightarrow>
             if ov = [] then (stats\<lparr>th_no_overview := th_no_overview stats + 1\<rparr>, w)
             else
               (case generate_themes_with_claude e (title_name title) ov (genres title) w of
                  (None, w1) \<Rightarrow> (stats\<lparr>th_error := th_error stats + 1\<rparr>, w1)
                | (Some themes, w1) \<Rightarrow>
                    if themes = [] then (stats\<lparr>th_error := th_error stats + 1\<rparr>, w1)
                    else if \<not> dry_run then
                      (case update_themes_in_db e (title_id title) themes w1 of
                         (True, w2) \<Rightarrow> (stats\<lparr>th_success := th_success stats + 1\<rparr>, sleep CLAUDE_RATE_LIMIT_DELAY w2)
                       | (False, w2) \<Rightarrow> (stats\<lparr>th_error := th_error stats + 1\<rparr>, sleep CLAUDE_RATE_LIMIT_DELAY w2))
                    else (stats\<lparr>th_success := th_success stats + 1\<rparr>, sleep CLAUDE_RATE_LIMIT_DELAY w1))))"

fun themes_loop :: "env \<Rightarrow> bool \<Rightarrow> title_row list \<Rightarrow> th_stats \<times> world \<Rightarrow> th_stats \<times> world" where
  "themes_loop e dry_run [] sw = sw"
| "themes_loop e dry_run (title # titles) sw =
     themes_loop e dry_run titles (themes_iteration e dry_run title sw)"

text \<open>\<^verbatim>\<open>if not use_claude or not claude: return stats\<close> comes before the loop.\<close>

definition backfill_themes :: "env \<Rightarrow> title_row list \<Rightarrow> bool \<Rightarrow> bool \<Rightarrow> world \<Rightarrow> th_stats \<times> world" where
  "backfill_themes e titles dry_run use_claude w =
     (let stats = \<lparr>th_total = length titles, th_success = 0, th_no_overview = 0, th_error = 0\<rparr>
      in if \<not> use_claude then (stats, w)
         else if claude e = None then (stats, w)
         else themes_loop e dry_run titles (stats, w))"

text \<open>
  \<^verbatim>\<open>print_stats\<close> of this script takes either dictionary; its success-rate line is
  printed only under \<^verbatim>\<open>if stats["total"] > 0\<close>.
\<close>

datatype stats_dict = OverviewStats ov_stats | ThemesStats th_stats

fun stats_total :: "stats_dict \<Rightarrow> nat" where
  "stats_total (OverviewStats s) = ov_total s"
| "stats_total (ThemesStats s) = th_total s"

fun stats_success :: "stats_dict \<Rightarrow> nat" where
  "stats_success (OverviewStats s) = ov_success s"
| "stats_success (ThemesStats s) = th_success s"

definition print_stats_themes_overview :: "stats_dict \<Rightarrow> py_exc + rat option" where
  "print_stats_themes_overview stats =
     (if stats_total stats > 0
      then Inr (Some (of_nat (stats_success stats) / of_nat (stats_total stats) * 100))
      else Inr None)"

section \<open>Observations on a trace\<close>

fun is_db_update :: "event \<Rightarrow> bool" where
  "is_db_update (DbUpdate col tid v) = True"
| "is_db_update ev = False"

fun is_http_get :: "event \<Rightarrow> bool" where
  "is_http_get (HttpGet u) = True"
| "is_http_get ev = False"

fun is_sleep :: "event \<Rightarrow> bool" where
  "is_sleep (Sleep d) = True"
| "is_sleep ev = False"

section \<open>Notions used in the statements\<close>

text \<open>The four outcome counters of the keywords statistics, in a fixed order.\<close>

definition kw_counts :: "kw_stats \<Rightarrow> nat list" where
  "kw_counts s = [kw_success s, kw_no_keywords_found s, kw_api_error s, kw_db_error s]"

definition th_counts :: "th_stats \<Rightarrow> nat list" where
  "th_counts s = [th_success s, th_no_overview s, th_error s]"

text \<open>What \<^verbatim>\<open>fetch_tmdb_keywords\<close> returns for a record (it does not depend on the world).\<close>

definition keywords_fetched :: "env \<Rightarrow> title_row \<Rightarrow> jval list option" where
  "keywords_fetched e t =
     (case fetch_tmdb_keywords_try e (title_id t) (kind t) of Inl ex \<Rightarrow> None | Inr r \<Rightarrow> r)"

text \<open>
  A record's iteration of the keywords loop raises nothing: its popularity formats, and
  the first five names of the keywords fetched for it, if any, are strings.
\<close>

definition keywords_record_ok :: "env \<Rightarrow> title_row \<Rightarrow> bool" where
  "keywords_record_ok e t \<longleftrightarrow>
     print_processing t = Inr () \<and>
     (case keywords_fetched e t of None \<Rightarrow> True | Some ks \<Rightarrow> print_found ks = Inr ())"

text \<open>
  A record's enrichment yields a valid value when the fetch (for themes: a non-empty
  overview and then the generator) returns a non-empty result. Neither call reads the
  world, so they are run in an empty one.
\<close>

definition no_world :: world where
  "no_world = \<lparr>store = Map.empty, trace = []\<rparr>"

definition keywords_valid :: "env \<Rightarrow> title_row \<Rightarrow> bool" where
  "keywords_valid e t \<longleftrightarrow>
     (case fst (fetch_tmdb_keywords e (title_id t) (kind t) no_world) of
        None \<Rightarrow> False | Some ks \<Rightarrow> ks \<noteq> [])"

definition themes_valid :: "env \<Rightarrow> title_row \<Rightarrow> bool" where
  "themes_valid e t \<longleftrightarrow>
     (case overview t of
        None \<Rightarrow> False
      | Some ov \<Rightarrow>
          ov \<noteq> [] \<and>
          (case fst (generate_themes_with_claude e (title_name t) ov (genres t) no_world) of
             None \<Rightarrow> False | Some th \<Rightarrow> th \<noteq> []))"

text \<open>
  The validation rule in the specification's words: the raw text is split on commas,
  each candidate is trimmed and accepted only if its length is strictly between 2 and
  50, and the result is truncated to at most 5 accepted tags.
\<close>

definition spec_accepted_tags :: "pystr \<Rightarrow> pystr list" where
  "spec_accepted_tags raw =
     take 5 (filter (\<lambda>t. 2 < length t \<and> length t < 50) (map strip (py_split 44 raw)))"

section \<open>A concrete environment\<close>

text \<open>
  A metadata API that knows seven titles (the keyword of title 8 has a null name), an
  enrichment model that answers for two, and a store that rejects every update of
  title 7.
\<close>

definition demo_keywords :: "string \<Rightarrow> kw_body http_result" where
  "demo_keywords u =
     (if u = ''https://api.themoviedb.org/3/movie/1/keywords''
      then Replied 200 (Some [''keywords'' \<mapsto> [[''name'' \<mapsto> JString (lit ''noir'')],
                                                 [''name'' \<mapsto> JString (lit ''heist'')]]])
      else if u = ''https://api.themoviedb.org/3/movie/2/keywords''
      then Replied 200 (Some [''keywords'' \<mapsto> []])
      else if u = ''https://api.themoviedb.org/3/movie/3/keywords''
      then ConnectionFailed
      else if u = ''https://api.themoviedb.org/3/movie/4/keywords''
      then Replied 200 (Some Map.empty)
      else if u = ''https://api.themoviedb.org/3/tv/5/keywords''
      then Replied 200 (Some [''results'' \<mapsto> [[''name'' \<mapsto> JString (lit ''space'')]]])
      else if u = ''https://api.themoviedb.org/3/movie/7/keywords''
      then Replied 200 (Some [''keywords'' \<mapsto> [[''name'' \<mapsto> JString (lit ''war'')]]])
      else if u = ''https://api.themoviedb.org/3/movie/8/keywords''
      then Replied 200 (Some [''keywords'' \<mapsto> [[''name'' \<mapsto> JNull]]])
      else Replied 404 None)"

definition demo_details :: "string \<Rightarrow> details_body http_result" where
  "demo_details u =
     (if u = ''https://api.themoviedb.org/3/movie/1''
      then Replied 200 (Some [''overview'' \<mapsto> JString (lit '' A crew plans a heist. '')])
      else if u = ''https://api.themoviedb.org/3/tv/5''
      then Replied 200 (Some [''overview'' \<mapsto> JString (lit ''Lost in space.'')])
      else ConnectionFailed)"

definition demo_create :: "pystr \<Rightarrow> pystr \<Rightarrow> pystr list \<Rightarrow> claude_result" where
  "demo_create title ov gs =
     (if title = lit ''Heat''
      then Message [lit ''a, revenge, redemption, xx, this-is-a-very-long-tag-that-exceeds-the-fifty-character-sanity-limit-threshold'']
      else if title = lit ''Blank''
      then Message [lit ''a, xx'']
      else ApiFailed)"

definition demo_env :: env where
  "demo_env = \<lparr>tmdb_keywords = demo_keywords, tmdb_details = demo_details,
                claude = Some demo_create,
                db_execute_raises = (\<lambda>w col tid v. tid = 7)\<rparr>"

definition demo_title :: "int \<Rightarrow> string \<Rightarrow> title_row" where
  "demo_title i knd = \<lparr>title_id = i, title_name = lit ''Heat'', kind = knd,
                        popularity = Some (JNumber 42),
                        overview = Some (lit ''A crew plans a heist.''), genres = Some [lit ''Crime'']\<rparr>"

definition demo_world :: world where
  "demo_world = \<lparr>store = [1 \<mapsto> Map.empty, 7 \<mapsto> Map.empty], trace = []\<rparr>"

text \<open>Two more records: the model answers the first with no usable tag and fails on the second.\<close>

definition blank_title :: title_row where
  "blank_title = (demo_title 1 ''movie'')\<lparr>title_name := lit ''Blank''\<rparr>"

definition unknown_title :: title_row where
  "unknown_title = (demo_title 1 ''movie'')\<lparr>title_name := lit ''Unknown''\<rparr>"

text \<open>A record whose popularity column is null.\<close>

definition null_popularity_title :: "int \<Rightarrow> title_row" where
  "null_popularity_title i = (demo_title i ''movie'')\<lparr>popularity := Some JNull\<rparr>"

text \<open>A selection computed from the store: the known titles whose keywords are null.\<close>

definition demo_select :: "(int \<rightharpoonup> row) \<Rightarrow> title_row list" where
  "demo_select st =
     filter (\<lambda>t. case st (title_id t) of None \<Rightarrow> False | Some r \<Rightarrow> r ''keywords'' = None)
       [demo_title 1 ''movie'', demo_title 7 ''movie'', demo_title 3 ''movie'']"

section \<open>Lemmas on the helpers\<close>

lemma py_split_nonempty: "py_split sep s \<noteq> []"
  by (induction s) (auto split: list.splits)

text \<open>
  \<open>py_split\<close> is Python's split: no piece holds the separator, and joining the pieces
  with it gives the string back.
\<close>

lemma py_split_no_sep: "p \<in> set (py_split sep s) \<Longrightarrow> sep \<notin> set p"
  by (induction s arbitrary: p) (auto split: list.splits if_splits)

lemma py_join_split: "py_join [sep] (py_split sep s) = s"
proof (induction s)
  case Nil
  then show ?case by simp
next
  case (Cons c cs)
  obtain p ps where ps: "py_split sep cs = p # ps"
    using py_split_nonempty [of sep cs] by (cases "py_split sep cs") auto
  with Cons show ?case by (cases ps) auto
qed

lemma py_split_append:
  "py_split sep (s @ t) =
     butlast (py_split sep s) @ [last (py_split sep s) @ hd (py_split sep t)] @ tl (py_split sep t)"
proof (induction s)
  case Nil
  then show ?case using py_split_nonempty [of sep t] by simp
next
  case (Cons c cs)
  obtain p ps where ps: "py_split sep cs = p # ps"
    using py_split_nonempty [of sep cs] by (cases "py_split sep cs") auto
  with Cons show ?case by (cases ps) auto
qed

lemma py_split_rev: "py_split sep (rev s) = rev (map rev (py_split sep s))"
proof (induction s)
  case Nil
  then show ?case by simp
next
  case (Cons c cs)
  obtain p ps where ps: "py_split sep cs = p # ps"
    using py_split_nonempty [of sep cs] by (cases "py_split sep cs") auto
  with Cons show ?case by (simp add: py_split_append)
qed

lemma py_split_dropWhile:
  "\<not> P sep \<Longrightarrow>
   py_split sep (dropWhile P s) = dropWhile P (hd (py_split sep s)) # tl (py_split sep s)"
proof (induction s)
  case Nil
  then show ?case by simp
next
  case (Cons c cs)
  obtain p ps where ps: "py_split sep cs = p # ps"
    using py_split_nonempty [of sep cs] by (cases "py_split sep cs") auto
  with Cons show ?case by auto
qed

text \<open>Trimming on the left and trimming on the right commute.\<close>

lemma dropWhile_rev_commute:
  "dropWhile P (rev (dropWhile P (rev s))) = rev (dropWhile P (rev (dropWhile P s)))"
proof (cases "\<forall>x\<in>set s. P x")
  case True
  then have a: "dropWhile P s = []" and b: "dropWhile P (rev s) = []"
    by simp_all
  show ?thesis unfolding a b by simp
next
  case False
  then obtain y ys where d: "dropWhile P s = y # ys"
    by (cases "dropWhile P s") auto
  then have ny: "\<not> P y" and s: "s = takeWhile P s @ y # ys"
    by (simp_all add: dropWhile_eq_Cons_conv)
  have tw: "dropWhile P (takeWhile P s) = []"
    by (auto dest: set_takeWhileD)
  have r: "dropWhile P (rev (y # ys)) = dropWhile P (rev ys) @ [y]"
    using ny by (simp add: dropWhile_append3)
  have "rev s = rev ys @ y # rev (takeWhile P s)"
    using s by (metis append.assoc append_Cons append_Nil rev.simps(2) rev_append)
  then have "dropWhile P (rev s) = dropWhile P (rev ys) @ y # rev (takeWhile P s)"
    using ny by (simp add: dropWhile_append3)
  then have "rev (dropWhile P (rev s)) = takeWhile P s @ y # rev (dropWhile P (rev ys))"
    by simp
  then have "dropWhile P (rev (dropWhile P (rev s))) = y # rev (dropWhile P (rev ys))"
    using ny tw by (simp add: dropWhile_append3)
  also have "\<dots> = rev (dropWhile P (rev (y # ys)))"
    using r by simp
  finally show ?thesis using d by simp
qed

lemma strip_dropWhile: "strip (dropWhile isspace s) = strip s"
  by (simp add: strip_def dropWhile_dropWhile1)

lemma strip_rev_dropWhile: "strip (rev (dropWhile isspace (rev s))) = strip s"
proof -
  have "strip (rev (dropWhile isspace (rev s))) =
          rev (dropWhile isspace (rev (dropWhile isspace (rev (dropWhile isspace (rev s))))))"
    by (simp add: strip_def)
  also have "\<dots> = rev (dropWhile isspace (dropWhile isspace (rev (dropWhile isspace s))))"
    by (simp add: dropWhile_rev_commute)
  also have "\<dots> = strip s"
    by (simp add: strip_def dropWhile_dropWhile1)
  finally show ?thesis .
qed

lemma strip_strip: "strip (strip s) = strip s"
proof -
  have "strip (strip s) = strip (rev (dropWhile isspace (rev (dropWhile isspace s))))"
    by (simp add: strip_def)
  then show ?thesis
    by (simp add: strip_rev_dropWhile strip_dropWhile)
qed

lemma map_strip_hd:
  "xs \<noteq> [] \<Longrightarrow> map strip (dropWhile isspace (hd xs) # tl xs) = map strip xs"
  by (cases xs) (simp_all add: strip_dropWhile)

lemma map_strip_rev_hd:
  "xs \<noteq> [] \<Longrightarrow>
   map strip (rev (map rev (dropWhile isspace (hd xs) # tl xs))) = map strip (rev (map rev xs))"
  using strip_rev_dropWhile [of "rev (hd xs)"] by (cases xs) simp_all

lemma not_isspace_comma: "\<not> isspace 44"
  by (simp add: isspace_def)

lemma py_split_comma_dropWhile:
  "py_split 44 (dropWhile isspace s) = dropWhile isspace (hd (py_split 44 s)) # tl (py_split 44 s)"
  using py_split_dropWhile [of isspace 44 s] not_isspace_comma by simp

text \<open>
  The script trims the whole answer before it splits; as every piece is trimmed again,
  this changes nothing.
\<close>

lemma map_strip_split_strip:
  "map strip (py_split 44 (strip raw)) = map strip (py_split 44 raw)"
proof -
  let ?d = "dropWhile isspace raw"
  have "map strip (py_split 44 (strip raw)) =
          map strip (rev (map rev (py_split 44 (dropWhile isspace (rev ?d)))))"
    by (simp add: strip_def py_split_rev)
  also have "\<dots> = map strip (rev (map rev (py_split 44 (rev ?d))))"
    using map_strip_rev_hd [OF py_split_nonempty, of 44 "rev ?d"]
    by (simp add: py_split_comma_dropWhile)
  also have "\<dots> = map strip (py_split 44 ?d)"
    by (simp add: py_split_rev rev_map)
  also have "\<dots> = map strip (py_split 44 raw)"
    using map_strip_hd [OF py_split_nonempty, of 44 raw]
    by (simp add: py_split_comma_dropWhile)
  finally show ?thesis .
qed

lemma themes_from_text_spec:
  "themes_from_text raw = (if spec_accepted_tags raw = [] then None else Some (spec_accepted_tags raw))"
proof -
  have f: "filter (\<lambda>t. t \<noteq> [] \<and> length t > 2 \<and> length t < 50) xs =
           filter (\<lambda>t. 2 < length t \<and> length t < 50) xs" for xs :: "pystr list"
    by (rule filter_cong) auto
  show ?thesis
    by (auto simp add: themes_from_text_def spec_accepted_tags_def Let_def map_strip_split_strip f)
qed

lemma spec_accepted_tags_props:
  "length (spec_accepted_tags raw) \<le> 5
   \<and> (\<forall>t\<in>set (spec_accepted_tags raw). 2 < length t \<and> length t < 50 \<and> strip t = t)"
  by (auto simp: spec_accepted_tags_def strip_strip dest!: in_set_takeD)

lemmas demo_defs =
  demo_env_def demo_keywords_def demo_details_def demo_create_def demo_title_def demo_world_def
  blank_title_def unknown_title_def null_popularity_title_def

lemmas keywords_eval =
  backfill_keywords_batch_def keywords_loop.simps keywords_iteration_def print_processing_def
  print_found_def format_1f_def fetch_tmdb_keywords_def
  fetch_tmdb_keywords_try_def http_get_json_def keywords_url_def str_int_def str_nat.simps
  digit_char_def dict_get_def update_keywords_in_db_def db_update_def log_event_def sleep_def
  lit_def

section \<open>The keywords loop\<close>

lemma fetch_tmdb_keywords_try_nonempty:
  "fetch_tmdb_keywords_try e i k = Inr (Some ks) \<Longrightarrow> ks \<noteq> []"
  by (auto simp: fetch_tmdb_keywords_try_def split: sum.splits if_splits)

lemma keywords_fetched_nonempty: "keywords_fetched e t = Some ks \<Longrightarrow> ks \<noteq> []"
  by (auto simp: keywords_fetched_def split: sum.splits dest: fetch_tmdb_keywords_try_nonempty)

lemma fetch_tmdb_keywords_eq:
  "fetch_tmdb_keywords e (title_id t) (kind t) w =
     (keywords_fetched e t, log_event (HttpGet (keywords_url (title_id t) (kind t))) w)"
  by (simp add: fetch_tmdb_keywords_def keywords_fetched_def Let_def split: sum.splits)

lemma update_keywords_in_db_trace:
  "trace (snd (update_keywords_in_db e i ks w)) = trace w @ [DbUpdate ''keywords'' i (ListVal ks)]"
  by (simp add: update_keywords_in_db_def db_update_def log_event_def Let_def split: option.splits)

lemma update_keywords_in_db_fst:
  "fst (update_keywords_in_db e i ks w) = (\<not> db_execute_raises e w ''keywords'' i (ListVal ks))"
  by (simp add: update_keywords_in_db_def db_update_def log_event_def Let_def split: option.splits)

lemma update_keywords_in_db_raises:
  "db_execute_raises e w ''keywords'' i (ListVal ks) \<Longrightarrow>
   update_keywords_in_db e i ks w = (False, log_event (DbUpdate ''keywords'' i (ListVal ks)) w)"
  by (simp add: update_keywords_in_db_def db_update_def Let_def)

text \<open>What the two printed lines of an iteration raise.\<close>

lemma print_processing_cases:
  "print_processing t = Inr () \<or> print_processing t = Inl TypeError \<or> print_processing t = Inl ValueError"
  by (simp add: print_processing_def format_1f_def split: option.splits jval.splits)

lemma print_found_Inl: "print_found ks = Inl ex \<Longrightarrow> ex = TypeError"
  by (simp add: print_found_def split: if_splits)

text \<open>One iteration, by what the printed lines raise, what the fetch returned and what the store did.\<close>

lemma keywords_iteration_eq:
  "keywords_iteration e d t (s, w) =
     (case print_processing t of
        Inl ex \<Rightarrow> (Inl ex, w)
      | Inr u \<Rightarrow>
          (let w1 = log_event (HttpGet (keywords_url (title_id t) (kind t))) w in
           case keywords_fetched e t of
             None \<Rightarrow> (Inr (s\<lparr>kw_api_error := kw_api_error s + 1\<rparr>), w1)
           | Some ks \<Rightarrow>
               (case print_found ks of
                  Inl ex \<Rightarrow> (Inl ex, w1)
                | Inr u' \<Rightarrow>
                    if d then (Inr (s\<lparr>kw_success := kw_success s + 1\<rparr>), sleep RATE_LIMIT_DELAY w1)
                    else if db_execute_raises e w1 ''keywords'' (title_id t) (ListVal ks)
                    then (Inr (s\<lparr>kw_db_error := kw_db_error s + 1\<rparr>),
                          sleep RATE_LIMIT_DELAY (snd (update_keywords_in_db e (title_id t) ks w1)))
                    else (Inr (s\<lparr>kw_success := kw_success s + 1\<rparr>),
                          sleep RATE_LIMIT_DELAY (snd (update_keywords_in_db e (title_id t) ks w1))))))"
proof (cases "print_processing t")
  case (Inl ex)
  then show ?thesis by (simp add: keywords_iteration_def)
next
  case (Inr u)
  show ?thesis
  proof (cases "keywords_fetched e t")
    case None
    with Inr show ?thesis
      by (simp add: keywords_iteration_def fetch_tmdb_keywords_eq)
  next
    case (Some ks)
    then have ne: "ks \<noteq> []" by (rule keywords_fetched_nonempty)
    let ?w1 = "log_event (HttpGet (keywords_url (title_id t) (kind t))) w"
    show ?thesis
    proof (cases "print_found ks")
      case (Inl ex)
      with Inr Some ne show ?thesis
        by (simp add: keywords_iteration_def fetch_tmdb_keywords_eq)
    next
      case found: (Inr u')
      obtain b w2 where u: "update_keywords_in_db e (title_id t) ks ?w1 = (b, w2)"
        by (cases "update_keywords_in_db e (title_id t) ks ?w1")
      then have b: "b = (\<not> db_execute_raises e ?w1 ''keywords'' (title_id t) (ListVal ks))"
        using update_keywords_in_db_fst [of e "title_id t" ks ?w1] by simp
      from Inr Some ne found u b show ?thesis
        by (cases b) (simp_all add: keywords_iteration_def fetch_tmdb_keywords_eq Let_def)
    qed
  qed
qed

text \<open>An iteration raises exactly on a record that is not \<open>keywords_record_ok\<close>.\<close>

lemma keywords_iteration_isl:
  "isl (fst (keywords_iteration e d t (s, w))) \<longleftrightarrow> \<not> keywords_record_ok e t"
  using print_processing_cases [of t]
  by (auto simp: keywords_iteration_eq keywords_record_ok_def Let_def
           split: sum.splits option.splits)

lemma keywords_iteration_raises:
  "\<not> keywords_record_ok e t \<Longrightarrow>
   fst (keywords_iteration e d t (s, w)) = Inl TypeError
   \<or> fst (keywords_iteration e d t (s, w)) = Inl ValueError"
  using print_processing_cases [of t]
  by (auto simp: keywords_iteration_eq keywords_record_ok_def Let_def
           split: sum.splits option.splits dest: print_found_Inl)

lemma keywords_iteration_cases:
  "fst (keywords_iteration e d t (s, w)) = Inr s' \<Longrightarrow>
   s' = s\<lparr>kw_success := kw_success s + 1\<rparr>
   \<or> s' = s\<lparr>kw_no_keywords_found := kw_no_keywords_found s + 1\<rparr>
   \<or> s' = s\<lparr>kw_api_error := kw_api_error s + 1\<rparr>
   \<or> s' = s\<lparr>kw_db_error := kw_db_error s + 1\<rparr>"
  by (auto simp: keywords_iteration_eq Let_def split: sum.splits option.splits if_splits)

lemma keywords_iteration_counts:
  assumes "fst (keywords_iteration e d t (s, w)) = Inr s'"
  shows "\<exists>i<4. kw_counts s' = (kw_counts s)[i := kw_counts s ! i + 1]"
proof -
  consider "s' = s\<lparr>kw_success := kw_success s + 1\<rparr>"
    | "s' = s\<lparr>kw_no_keywords_found := kw_no_keywords_found s + 1\<rparr>"
    | "s' = s\<lparr>kw_api_error := kw_api_error s + 1\<rparr>"
    | "s' = s\<lparr>kw_db_error := kw_db_error s + 1\<rparr>"
    using keywords_iteration_cases [OF assms] by blast
  then show ?thesis
  proof cases
    case 1 then show ?thesis by (intro exI [of _ 0]) (simp add: kw_counts_def)
  next
    case 2 then show ?thesis by (intro exI [of _ 1]) (simp add: kw_counts_def)
  next
    case 3 then show ?thesis by (intro exI [of _ 2]) (simp add: kw_counts_def)
  next
    case 4 then show ?thesis by (intro exI [of _ 3]) (simp add: kw_counts_def)
  qed
qed

lemma keywords_iteration_sum:
  "fst (keywords_iteration e d t (s, w)) = Inr s' \<Longrightarrow>
   sum_list (kw_counts s') = sum_list (kw_counts s) + 1 \<and> kw_total s' = kw_total s"
  using keywords_iteration_cases [of e d t s w s'] by (auto simp: kw_counts_def)

text \<open>The loop, one step unfolded on the result of the iteration.\<close>

lemma keywords_loop_Cons_Inl:
  "fst (keywords_iteration e d t sw) = Inl ex \<Longrightarrow>
   keywords_loop e d (t # ts) sw = (Inl ex, snd (keywords_iteration e d t sw))"
  by (cases "keywords_iteration e d t sw") simp

lemma keywords_loop_Cons_Inr:
  "fst (keywords_iteration e d t sw) = Inr s' \<Longrightarrow>
   keywords_loop e d (t # ts) sw = keywords_loop e d ts (s', snd (keywords_iteration e d t sw))"
  by (cases "keywords_iteration e d t sw") simp

declare keywords_loop.simps(2) [simp del]

lemma keywords_loop_sum:
  "fst (keywords_loop e d ts (s, w)) = Inr s' \<Longrightarrow>
   sum_list (kw_counts s') = sum_list (kw_counts s) + length ts \<and> kw_total s' = kw_total s"
proof (induction ts arbitrary: s w)
  case Nil
  then show ?case by simp
next
  case (Cons t ts)
  show ?case
  proof (cases "fst (keywords_iteration e d t (s, w))")
    case (Inl ex)
    with Cons.prems show ?thesis by (simp add: keywords_loop_Cons_Inl)
  next
    case (Inr s1)
    with Cons.prems Cons.IH [of s1 "snd (keywords_iteration e d t (s, w))"]
      keywords_iteration_sum [OF Inr]
    show ?thesis by (simp add: keywords_loop_Cons_Inr)
  qed
qed

text \<open>The loop raises exactly when some record of the batch is not \<open>keywords_record_ok\<close>.\<close>

lemma keywords_loop_isl:
  "isl (fst (keywords_loop e d ts (s, w))) \<longleftrightarrow> \<not> list_all (keywords_record_ok e) ts"
proof (induction ts arbitrary: s w)
  case Nil
  then show ?case by simp
next
  case (Cons t ts)
  show ?case
  proof (cases "fst (keywords_iteration e d t (s, w))")
    case (Inl ex)
    with keywords_iteration_isl [of e d t s w] show ?thesis
      by (simp add: keywords_loop_Cons_Inl)
  next
    case (Inr s1)
    with keywords_iteration_isl [of e d t s w]
      Cons.IH [of s1 "snd (keywords_iteration e d t (s, w))"]
    show ?thesis by (simp add: keywords_loop_Cons_Inr)
  qed
qed

lemma keywords_loop_returns:
  "list_all (keywords_record_ok e) ts \<Longrightarrow> \<exists>s'. fst (keywords_loop e d ts (s, w)) = Inr s'"
  using keywords_loop_isl [of e d ts s w]
  by (cases "fst (keywords_loop e d ts (s, w))") simp_all

lemma keywords_valid_iff: "keywords_valid e t \<longleftrightarrow> keywords_fetched e t \<noteq> None"
  by (auto simp: keywords_valid_def fetch_tmdb_keywords_eq split: option.splits
           dest: keywords_fetched_nonempty)

lemma keywords_iteration_no_keywords_found:
  "fst (keywords_iteration e d t (s, w)) = Inr s' \<Longrightarrow> kw_no_keywords_found s' = kw_no_keywords_found s"
  by (auto simp: keywords_iteration_eq Let_def split: sum.splits option.splits if_splits)

lemma keywords_iteration_requests:
  "keywords_record_ok e t \<Longrightarrow>
   filter is_http_get (trace (snd (keywords_iteration e d t (s, w)))) =
     filter is_http_get (trace w) @ [HttpGet (keywords_url (title_id t) (kind t))]"
  by (auto simp: keywords_iteration_eq keywords_record_ok_def Let_def sleep_def log_event_def
        update_keywords_in_db_trace split: option.splits sum.splits)

lemma keywords_iteration_dry_store:
  "store (snd (keywords_iteration e True t (s, w))) = store w
   \<and> filter is_db_update (trace (snd (keywords_iteration e True t (s, w)))) = filter is_db_update (trace w)"
  by (simp add: keywords_iteration_eq Let_def sleep_def log_event_def split: option.splits sum.splits)

lemma keywords_iteration_dry_world:
  "fst (keywords_iteration e True t (s, w)) = fst (keywords_iteration e True t (s, w'))"
  by (simp add: keywords_iteration_eq Let_def split: option.splits sum.splits)

lemma keywords_iteration_dry_stats:
  "keywords_record_ok e t \<Longrightarrow>
   fst (keywords_iteration e True t (s, w)) =
     Inr (if keywords_fetched e t = None then s\<lparr>kw_api_error := kw_api_error s + 1\<rparr>
          else s\<lparr>kw_success := kw_success s + 1\<rparr>)"
  by (auto simp: keywords_iteration_eq keywords_record_ok_def Let_def split: option.splits sum.splits)

lemma keywords_iteration_sleeps:
  "keywords_record_ok e t \<Longrightarrow>
   length (filter is_sleep (trace (snd (keywords_iteration e d t (s, w))))) =
     length (filter is_sleep (trace w)) + (if keywords_fetched e t = None then 0 else 1)"
  by (auto simp: keywords_iteration_eq keywords_record_ok_def Let_def sleep_def log_event_def
        update_keywords_in_db_trace split: option.splits sum.splits)

lemma keywords_loop_requests:
  "list_all (keywords_record_ok e) ts \<Longrightarrow>
   filter is_http_get (trace (snd (keywords_loop e d ts (s, w)))) =
     filter is_http_get (trace w) @ map (\<lambda>t. HttpGet (keywords_url (title_id t) (kind t))) ts"
proof (induction ts arbitrary: s w)
  case Nil
  then show ?case by simp
next
  case (Cons t ts)
  then have ok: "keywords_record_ok e t" and rest: "list_all (keywords_record_ok e) ts"
    by simp_all
  from ok keywords_iteration_isl [of e d t s w]
  obtain s1 where it: "fst (keywords_iteration e d t (s, w)) = Inr s1"
    by (cases "fst (keywords_iteration e d t (s, w))") simp_all
  with keywords_iteration_requests [OF ok, of d s w]
    Cons.IH [OF rest, of s1 "snd (keywords_iteration e d t (s, w))"]
  show ?case by (simp add: keywords_loop_Cons_Inr)
qed

lemma keywords_loop_dry_store:
  "store (snd (keywords_loop e True ts (s, w))) = store w
   \<and> filter is_db_update (trace (snd (keywords_loop e True ts (s, w)))) = filter is_db_update (trace w)"
proof (induction ts arbitrary: s w)
  case Nil
  then show ?case by simp
next
  case (Cons t ts)
  show ?case
  proof (cases "fst (keywords_iteration e True t (s, w))")
    case (Inl ex)
    with keywords_iteration_dry_store [of e t s w] show ?thesis
      by (simp add: keywords_loop_Cons_Inl)
  next
    case (Inr s1)
    with keywords_iteration_dry_store [of e t s w]
      Cons.IH [of s1 "snd (keywords_iteration e True t (s, w))"]
    show ?thesis by (simp add: keywords_loop_Cons_Inr)
  qed
qed

text \<open>What a dry run returns or raises does not depend on the world it starts in.\<close>

lemma keywords_loop_dry_world:
  "fst (keywords_loop e True ts (s, w)) = fst (keywords_loop e True ts (s, w'))"
proof (induction ts arbitrary: s w w')
  case Nil
  then show ?case by simp
next
  case (Cons t ts)
  show ?case
  proof (cases "fst (keywords_iteration e True t (s, w))")
    case (Inl ex)
    moreover from Inl have "fst (keywords_iteration e True t (s, w')) = Inl ex"
      using keywords_iteration_dry_world [of e t s w w'] by simp
    ultimately show ?thesis by (simp add: keywords_loop_Cons_Inl)
  next
    case (Inr s1)
    moreover from Inr have "fst (keywords_iteration e True t (s, w')) = Inr s1"
      using keywords_iteration_dry_world [of e t s w w'] by simp
    ultimately show ?thesis
      using Cons.IH [of s1 "snd (keywords_iteration e True t (s, w))"
          "snd (keywords_iteration e True t (s, w'))"]
      by (simp add: keywords_loop_Cons_Inr)
  qed
qed

text \<open>The statistics of a dry run that raises nothing.\<close>

lemma keywords_loop_dry_stats:
  "list_all (keywords_record_ok e) ts \<Longrightarrow>
   fst (keywords_loop e True ts (s, w)) =
     Inr (s\<lparr>kw_success := kw_success s + length (filter (keywords_valid e) ts),
            kw_api_error := kw_api_error s + length (filter (\<lambda>t. \<not> keywords_valid e t) ts)\<rparr>)"
proof (induction ts arbitrary: s w)
  case Nil
  then show ?case by simp
next
  case (Cons t ts)
  then have ok: "keywords_record_ok e t" and rest: "list_all (keywords_record_ok e) ts"
    by simp_all
  note it = keywords_iteration_dry_stats [OF ok, of s w]
  show ?case
    using Cons.IH [OF rest, of _ "snd (keywords_iteration e True t (s, w))"]
    by (simp add: keywords_loop_Cons_Inr [OF it] keywords_valid_iff)
qed

text \<open>The loop sleeps once per record with a valid fetch, not once per record.\<close>

lemma keywords_loop_sleeps:
  "list_all (keywords_record_ok e) ts \<Longrightarrow>
   length (filter is_sleep (trace (snd (keywords_loop e d ts (s, w))))) =
     length (filter is_sleep (trace w)) + length (filter (keywords_valid e) ts)"
proof (induction ts arbitrary: s w)
  case Nil
  then show ?case by simp
next
  case (Cons t ts)
  then have ok: "keywords_record_ok e t" and rest: "list_all (keywords_record_ok e) ts"
    by simp_all
  from ok keywords_iteration_isl [of e d t s w]
  obtain s1 where it: "fst (keywords_iteration e d t (s, w)) = Inr s1"
    by (cases "fst (keywords_iteration e d t (s, w))") simp_all
  with keywords_iteration_sleeps [OF ok, of d s w]
    Cons.IH [OF rest, of s1 "snd (keywords_iteration e d t (s, w))"]
  show ?case by (simp add: keywords_loop_Cons_Inr keywords_valid_iff)
qed

text \<open>The branch that counts \<^verbatim>\<open>no_keywords_found\<close> is never taken.\<close>

lemma keywords_loop_no_keywords_found:
  "fst (keywords_loop e d ts (s, w)) = Inr s' \<Longrightarrow> kw_no_keywords_found s' = kw_no_keywords_found s"
proof (induction ts arbitrary: s w)
  case Nil
  then show ?case by simp
next
  case (Cons t ts)
  show ?case
  proof (cases "fst (keywords_iteration e d t (s, w))")
    case (Inl ex)
    with Cons.prems show ?thesis by (simp add: keywords_loop_Cons_Inl)
  next
    case (Inr s1)
    with Cons.prems Cons.IH [of s1 "snd (keywords_iteration e d t (s, w))"]
      keywords_iteration_no_keywords_found [OF Inr]
    show ?thesis by (simp add: keywords_loop_Cons_Inr)
  qed
qed

text \<open>
  The errors the script catches stay inside the iteration: a failed request, status
  check or decoding counts \<^verbatim>\<open>api_error\<close>, a store that raises counts \<^verbatim>\<open>db_error\<close>,
  and the loop goes on with the next record.
\<close>

lemma keywords_iteration_transport_error:
  assumes "print_processing t = Inr ()"
    and "http_get_json (tmdb_keywords e (keywords_url (title_id t) (kind t))) = Inl ex"
  shows "keywords_iteration e d t (s, w) =
           (Inr (s\<lparr>kw_api_error := kw_api_error s + 1\<rparr>),
            log_event (HttpGet (keywords_url (title_id t) (kind t))) w)"
  using assms
  by (simp add: keywords_iteration_eq keywords_fetched_def fetch_tmdb_keywords_try_def)

lemma keywords_iteration_store_error:
  assumes "keywords_record_ok e t" and "keywords_fetched e t = Some ks"
    and "db_execute_raises e (log_event (HttpGet (keywords_url (title_id t) (kind t))) w)
           ''keywords'' (title_id t) (ListVal ks)"
  shows "keywords_iteration e False t (s, w) =
           (Inr (s\<lparr>kw_db_error := kw_db_error s + 1\<rparr>),
            sleep RATE_LIMIT_DELAY
              (log_event (DbUpdate ''keywords'' (title_id t) (ListVal ks))
                 (log_event (HttpGet (keywords_url (title_id t) (kind t))) w)))"
  using assms update_keywords_in_db_raises [OF assms(3)]
  by (simp add: keywords_iteration_eq keywords_record_ok_def)

text \<open>
  The envelope key follows the kind, and a body without that key is read as an empty
  list, which the last line of the \<^verbatim>\<open>try\<close> turns into \<^verbatim>\<open>None\<close>.
\<close>

lemma fetch_tmdb_keywords_envelope:
  assumes "tmdb_keywords e (keywords_url i knd) = Replied st (Some data)" and "st < 400"
  shows "fetch_tmdb_keywords_try e i knd =
           (case kw_names (dict_get data (if knd = ''movie'' then ''keywords'' else ''results'') []) of
              Inl ex \<Rightarrow> Inl ex
            | Inr ks \<Rightarrow> Inr (if ks \<noteq> [] then Some ks else None))"
proof (cases "knd = ''movie''")
  case True
  with assms show ?thesis
    by (simp add: fetch_tmdb_keywords_try_def http_get_json_def)
next
  case False
  with assms show ?thesis
    by (simp add: fetch_tmdb_keywords_try_def http_get_json_def)
qed

lemma fetch_tmdb_keywords_missing_key:
  assumes "tmdb_keywords e (keywords_url i knd) = Replied st (Some data)" and "st < 400"
    and "data (if knd = ''movie'' then ''keywords'' else ''results'') = None"
  shows "fetch_tmdb_keywords e i knd w = (None, log_event (HttpGet (keywords_url i knd)) w)"
  using fetch_tmdb_keywords_envelope [OF assms(1,2)] assms(3)
  by (simp add: fetch_tmdb_keywords_def dict_get_def)

lemma filter_none: "(\<And>x. \<not> P x) \<Longrightarrow> filter P xs = []"
  by (induction xs) simp_all

lemma backfill_keywords_batch_dry_store:
  "store (snd (backfill_keywords_batch e ts True w)) = store w
   \<and> filter is_db_update (trace (snd (backfill_keywords_batch e ts True w))) = filter is_db_update (trace w)"
  using keywords_loop_dry_store [of e ts _ w] by (simp add: backfill_keywords_batch_def)

lemma backfill_keywords_batch_dry_world:
  "fst (backfill_keywords_batch e ts True w) = fst (backfill_keywords_batch e ts True w')"
  by (simp add: backfill_keywords_batch_def keywords_loop_dry_world [of e ts _ w w'])

lemma backfill_keywords_batch_dry_stats:
  "list_all (keywords_record_ok e) ts \<Longrightarrow>
   fst (backfill_keywords_batch e ts True w) =
     Inr \<lparr>kw_total = length ts, kw_success = length (filter (keywords_valid e) ts),
          kw_no_keywords_found = 0,
          kw_api_error = length (filter (\<lambda>t. \<not> keywords_valid e t) ts), kw_db_error = 0\<rparr>"
  by (simp add: backfill_keywords_batch_def keywords_loop_dry_stats)

section \<open>The themes loop\<close>

lemma generate_themes_world:
  "fst (generate_themes_with_claude e n ov g w) = fst (generate_themes_with_claude e n ov g w')"
  by (simp add: generate_themes_with_claude_def generate_themes_try_def Let_def
           split: option.splits claude_result.splits list.splits)

lemma generate_themes_store:
  "store (snd (generate_themes_with_claude e n ov g w)) = store w
   \<and> filter is_db_update (trace (snd (generate_themes_with_claude e n ov g w))) = filter is_db_update (trace w)"
  by (simp add: generate_themes_with_claude_def generate_themes_try_def Let_def log_event_def
           split: option.splits claude_result.splits list.splits)

lemma themes_iteration_cases:
  "fst (themes_iteration e d t (s, w)) = s\<lparr>th_success := th_success s + 1\<rparr>
   \<or> fst (themes_iteration e d t (s, w)) = s\<lparr>th_no_overview := th_no_overview s + 1\<rparr>
   \<or> fst (themes_iteration e d t (s, w)) = s\<lparr>th_error := th_error s + 1\<rparr>"
  by (simp add: themes_iteration_def split: prod.splits option.splits bool.splits)

lemma themes_iteration_counts:
  "\<exists>i<3. th_counts (fst (themes_iteration e d t (s, w))) = (th_counts s)[i := th_counts s ! i + 1]"
proof -
  let ?s' = "fst (themes_iteration e d t (s, w))"
  consider "?s' = s\<lparr>th_success := th_success s + 1\<rparr>"
    | "?s' = s\<lparr>th_no_overview := th_no_overview s + 1\<rparr>"
    | "?s' = s\<lparr>th_error := th_error s + 1\<rparr>"
    using themes_iteration_cases by blast
  then show ?thesis
  proof cases
    case 1 then show ?thesis by (intro exI [of _ 0]) (simp add: th_counts_def)
  next
    case 2 then show ?thesis by (intro exI [of _ 1]) (simp add: th_counts_def)
  next
    case 3 then show ?thesis by (intro exI [of _ 2]) (simp add: th_counts_def)
  qed
qed

lemma themes_iteration_sum:
  "sum_list (th_counts (fst (themes_iteration e d t (s, w)))) = sum_list (th_counts s) + 1
   \<and> th_total (fst (themes_iteration e d t (s, w))) = th_total s"
  using themes_iteration_cases [of e d t s w] by (auto simp: th_counts_def)

lemma themes_loop_sum:
  "sum_list (th_counts (fst (themes_loop e d ts (s, w)))) = sum_list (th_counts s) + length ts
   \<and> th_total (fst (themes_loop e d ts (s, w))) = th_total s"
proof (induction ts arbitrary: s w)
  case Nil
  then show ?case by simp
next
  case (Cons t ts)
  obtain s1 w1 where it: "themes_iteration e d t (s, w) = (s1, w1)"
    by (cases "themes_iteration e d t (s, w)")
  with themes_iteration_sum [of e d t s w] Cons.IH [of s1 w1] show ?case by simp
qed

lemma themes_iteration_dry_store:
  "store (snd (themes_iteration e True t (s, w))) = store w
   \<and> filter is_db_update (trace (snd (themes_iteration e True t (s, w)))) = filter is_db_update (trace w)"
proof (cases "overview t")
  case None
  then show ?thesis by (simp add: themes_iteration_def)
next
  case (Some ov)
  obtain r w1 where g: "generate_themes_with_claude e (title_name t) ov (genres t) w = (r, w1)"
    by (cases "generate_themes_with_claude e (title_name t) ov (genres t) w")
  with generate_themes_store [of e "title_name t" ov "genres t" w]
  have "store w1 = store w" "filter is_db_update (trace w1) = filter is_db_update (trace w)"
    by simp_all
  with Some g show ?thesis
    by (simp add: themes_iteration_def sleep_def log_event_def split: option.splits)
qed

lemma themes_iteration_dry_stats:
  "fst (themes_iteration e True t (s, w)) =
     (if themes_valid e t then s\<lparr>th_success := th_success s + 1\<rparr>
      else if overview t = None \<or> overview t = Some [] then s\<lparr>th_no_overview := th_no_overview s + 1\<rparr>
      else s\<lparr>th_error := th_error s + 1\<rparr>)"
proof (cases "overview t")
  case None
  then show ?thesis by (simp add: themes_iteration_def themes_valid_def)
next
  case (Some ov)
  obtain r w1 where g: "generate_themes_with_claude e (title_name t) ov (genres t) w = (r, w1)"
    by (cases "generate_themes_with_claude e (title_name t) ov (genres t) w")
  with generate_themes_world [of e "title_name t" ov "genres t" w no_world]
  have "fst (generate_themes_with_claude e (title_name t) ov (genres t) no_world) = r"
    by simp
  with Some g show ?thesis
    by (simp add: themes_iteration_def themes_valid_def split: option.splits)
qed

lemma themes_loop_dry_store:
  "store (snd (themes_loop e True ts (s, w))) = store w
   \<and> filter is_db_update (trace (snd (themes_loop e True ts (s, w)))) = filter is_db_update (trace w)"
proof (induction ts arbitrary: s w)
  case Nil
  then show ?case by simp
next
  case (Cons t ts)
  obtain s1 w1 where it: "themes_iteration e True t (s, w) = (s1, w1)"
    by (cases "themes_iteration e True t (s, w)")
  with themes_iteration_dry_store [of e t s w] Cons.IH [of s1 w1] show ?case by simp
qed

lemma themes_loop_dry_success:
  "th_success (fst (themes_loop e True ts (s, w))) = th_success s + length (filter (themes_valid e) ts)"
proof (induction ts arbitrary: s w)
  case Nil
  then show ?case by simp
next
  case (Cons t ts)
  obtain s1 w1 where it: "themes_iteration e True t (s, w) = (s1, w1)"
    by (cases "themes_iteration e True t (s, w)")
  with themes_iteration_dry_stats [of e t s w] Cons.IH [of s1 w1] show ?case
    by (simp split: if_splits)
qed

lemma themes_valid_no_client: "claude e = None \<Longrightarrow> \<not> themes_valid e t"
  by (simp add: themes_valid_def generate_themes_with_claude_def split: option.splits)

lemma themes_zero_survivors:
  assumes "overview t = Some ov" "ov \<noteq> []" "genres t = Some g" "claude e = Some create"
    "create (title_name t) ov g = Message (raw # rest)" "spec_accepted_tags raw = []"
  shows "themes_iteration e d t (s, w) =
           (s\<lparr>th_error := th_error s + 1\<rparr>, log_event (ClaudeCreate (title_name t) ov g) w)"
  using assms themes_from_text_spec [of raw]
  by (simp add: themes_iteration_def generate_themes_with_claude_def generate_themes_try_def)

lemmas themes_eval =
  backfill_themes_def themes_iteration_def generate_themes_with_claude_def generate_themes_try_def
  themes_from_text_def update_themes_in_db_def db_update_def log_event_def sleep_def lit_def
  strip_def isspace_def

lemmas overviews_eval =
  backfill_overviews_def overviews_iteration_def fetch_tmdb_overview_def fetch_tmdb_overview_try_def
  http_get_json_def overview_url_def str_int_def str_nat.simps digit_char_def dict_get_def
  update_overview_in_db_def db_update_def log_event_def sleep_def lit_def strip_def isspace_def

section \<open>Runs in the concrete environment\<close>

lemma demo_keywords_run:
  "fst (backfill_keywords_batch demo_env
       [demo_title 1 ''movie'', demo_title 3 ''movie'', demo_title 7 ''movie''] False demo_world)
     = Inr \<lparr>kw_total = 3, kw_success = 1, kw_no_keywords_found = 0, kw_api_error = 1, kw_db_error = 1\<rparr>"
  by (simp add: keywords_eval demo_defs)

lemma demo_keywords_run_trace:
  "trace (snd (backfill_keywords_batch demo_env
       [demo_title 1 ''movie'', demo_title 3 ''movie'', demo_title 7 ''movie''] False demo_world))
     = [HttpGet ''https://api.themoviedb.org/3/movie/1/keywords'',
        DbUpdate ''keywords'' 1 (ListVal [JString (lit ''noir''), JString (lit ''heist'')]),
        Sleep RATE_LIMIT_DELAY,
        HttpGet ''https://api.themoviedb.org/3/movie/3/keywords'',
        HttpGet ''https://api.themoviedb.org/3/movie/7/keywords'',
        DbUpdate ''keywords'' 7 (ListVal [JString (lit ''war'')]),
        Sleep RATE_LIMIT_DELAY]"
  by (simp add: keywords_eval demo_defs)

lemma demo_keywords_ok:
  "list_all (keywords_record_ok demo_env)
     [demo_title 1 ''movie'', demo_title 3 ''movie'', demo_title 7 ''movie'']"
  by (simp add: keywords_record_ok_def keywords_fetched_def keywords_eval demo_defs)

lemma demo_themes_run:
  "fst (backfill_themes demo_env [demo_title 1 ''movie'', blank_title, unknown_title] False True demo_world)
      = \<lparr>th_total = 3, th_success = 1, th_no_overview = 0, th_error = 2\<rparr>"
  by (simp add: themes_eval demo_defs)

text \<open>
  A dry run never invokes the persist function, whether it returns or raises: no store
  update appears in the trace and the store is unchanged. When no record of the batch
  raises, the success count of the keywords engine is the number of records with a valid
  fetch; the success count of the themes engine is the number of records with a valid
  value.
\<close>

lemma dry_run_persists_nothing:
  "store (snd (backfill_keywords_batch e ts True w)) = store w
   \<and> filter is_db_update (trace (snd (backfill_keywords_batch e ts True w))) = filter is_db_update (trace w)
   \<and> store (snd (backfill_themes e ts True uc w)) = store w
   \<and> filter is_db_update (trace (snd (backfill_themes e ts True uc w))) = filter is_db_update (trace w)
   \<and> th_success (fst (backfill_themes e ts True True w)) = length (filter (themes_valid e) ts)"
proof -
  note k = backfill_keywords_batch_dry_store [of e ts w]
  have t: "store (snd (backfill_themes e ts True uc w)) = store w
      \<and> filter is_db_update (trace (snd (backfill_themes e ts True uc w))) = filter is_db_update (trace w)"
    using themes_loop_dry_store [of e ts _ w] by (simp add: backfill_themes_def Let_def)
  have tsx: "th_success (fst (backfill_themes e ts True True w)) = length (filter (themes_valid e) ts)"
  proof (cases "claude e")
    case None
    then have "filter (themes_valid e) ts = []"
      by (intro filter_none) (rule themes_valid_no_client)
    with None show ?thesis by (simp add: backfill_themes_def Let_def)
  next
    case (Some c)
    then show ?thesis by (simp add: backfill_themes_def Let_def themes_loop_dry_success)
  qed
  from k t tsx show ?thesis by blast
qed

section \<open>The claims\<close>

text \<open>
  C1. The claim: the metadata client signals a transport failure distinctly from a
  successful but empty result, so that the engine counts the first as an upstream error
  and the second as upstream-empty; three records answered with a non-empty list, an
  empty list and a transport error give total 3, updated 1, upstream-empty 1,
  upstream-error 1. The code: \<^verbatim>\<open>fetch_tmdb_keywords\<close> ends its \<^verbatim>\<open>try\<close> with
  \<^verbatim>\<open>return keywords if keywords else None\<close>, so the empty list and the transport
  error both come back as \<^verbatim>\<open>None\<close>, and the three records give \<^verbatim>\<open>api_error\<close> 2 and
  \<^verbatim>\<open>no_keywords_found\<close> 0.
\<close>

theorem C1_three_record_scenario:
  "fst (backfill_keywords_batch demo_env
          [demo_title 1 ''movie'', demo_title 2 ''movie'', demo_title 3 ''movie''] False demo_world)
     = Inr \<lparr>kw_total = 3, kw_success = 1, kw_no_keywords_found = 0, kw_api_error = 2, kw_db_error = 0\<rparr>
   \<and> fst (fetch_tmdb_keywords demo_env 2 ''movie'' demo_world) = None
   \<and> fst (fetch_tmdb_keywords demo_env 3 ''movie'' demo_world) = None"
  by (simp add: keywords_eval demo_defs)

text \<open>
  C2. The claim: after every record, whatever its outcome, the engine sleeps for the
  pacing delay before the next record. The code: the branches for a failed and for an
  empty fetch leave the iteration with \<^verbatim>\<open>continue\<close>, before the
  \<^verbatim>\<open>time.sleep\<close> that ends the loop body. With a first record whose fetch fails, the
  next request follows the failed one with no sleep between them, in the keywords loop
  and in the overview loop.
\<close>

theorem C2_no_sleep_after_failed_fetch:
  "trace (snd (backfill_keywords_batch demo_env
                 [demo_title 3 ''movie'', demo_title 2 ''movie'', demo_title 1 ''movie''] True demo_world))
     = [HttpGet ''https://api.themoviedb.org/3/movie/3/keywords'',
        HttpGet ''https://api.themoviedb.org/3/movie/2/keywords'',
        HttpGet ''https://api.themoviedb.org/3/movie/1/keywords'',
        Sleep RATE_LIMIT_DELAY]
   \<and> trace (snd (backfill_overviews demo_env
                 [demo_title 3 ''movie'', demo_title 1 ''movie''] True demo_world))
     = [HttpGet ''https://api.themoviedb.org/3/movie/3'',
        HttpGet ''https://api.themoviedb.org/3/movie/1'',
        Sleep TMDB_RATE_LIMIT_DELAY]"
  by (simp add: keywords_eval overviews_eval demo_defs)

text \<open>
  C3, as amended. For every batch none of whose records raises in the keywords loop
  (the popularity formats, and the first five keyword names fetched are strings) the
  keywords engine returns statistics, in which each record is counted under exactly one
  of the four outcome counters, so the counts sum to the length of the batch, which is
  the total. The themes engine does the same with its three counters when it is run
  with \<^verbatim>\<open>use_claude\<close> and a configured client. Run without \<^verbatim>\<open>use_claude\<close> or without
  a client, the themes engine returns at once: the total is the length of the batch and
  every count is zero.
\<close>

theorem C3_outcome_counts:
  "(list_all (keywords_record_ok e) ts \<longrightarrow>
      (\<exists>r. fst (backfill_keywords_batch e ts d w) = Inr r
           \<and> sum_list (kw_counts r) = length ts \<and> kw_total r = length ts))
   \<and> (keywords_record_ok e t \<longrightarrow>
      (\<exists>s1. fst (keywords_iteration e d t (s, w)) = Inr s1
           \<and> (\<exists>i<4. kw_counts s1 = (kw_counts s)[i := kw_counts s ! i + 1])))
   \<and> th_total (fst (backfill_themes e ts d uc w)) = length ts
   \<and> (uc \<and> claude e \<noteq> None \<longrightarrow>
        sum_list (th_counts (fst (backfill_themes e ts d uc w))) = length ts)
   \<and> (\<not> (uc \<and> claude e \<noteq> None) \<longrightarrow>
        backfill_themes e ts d uc w =
          (\<lparr>th_total = length ts, th_success = 0, th_no_overview = 0, th_error = 0\<rparr>, w))
   \<and> (\<exists>i<3. th_counts (fst (themes_iteration e d t (s', w))) = (th_counts s')[i := th_counts s' ! i + 1])"
proof -
  have a: "list_all (keywords_record_ok e) ts \<longrightarrow>
      (\<exists>r. fst (backfill_keywords_batch e ts d w) = Inr r
           \<and> sum_list (kw_counts r) = length ts \<and> kw_total r = length ts)"
  proof
    assume ok: "list_all (keywords_record_ok e) ts"
    let ?s0 = "\<lparr>kw_total = length ts, kw_success = 0, kw_no_keywords_found = 0,
                 kw_api_error = 0, kw_db_error = 0\<rparr>"
    from keywords_loop_returns [OF ok, of d ?s0 w]
    obtain r where r: "fst (keywords_loop e d ts (?s0, w)) = Inr r" by blast
    from keywords_loop_sum [OF r]
    have "sum_list (kw_counts r) = length ts \<and> kw_total r = length ts"
      by (simp add: kw_counts_def)
    with r show "\<exists>r. fst (backfill_keywords_batch e ts d w) = Inr r
           \<and> sum_list (kw_counts r) = length ts \<and> kw_total r = length ts"
      by (simp add: backfill_keywords_batch_def)
  qed
  have i: "keywords_record_ok e t \<longrightarrow>
      (\<exists>s1. fst (keywords_iteration e d t (s, w)) = Inr s1
           \<and> (\<exists>i<4. kw_counts s1 = (kw_counts s)[i := kw_counts s ! i + 1]))"
  proof
    assume ok: "keywords_record_ok e t"
    with keywords_iteration_isl [of e d t s w]
    obtain s1 where s1: "fst (keywords_iteration e d t (s, w)) = Inr s1"
      by (cases "fst (keywords_iteration e d t (s, w))") simp_all
    with keywords_iteration_counts [OF s1]
    show "\<exists>s1. fst (keywords_iteration e d t (s, w)) = Inr s1
           \<and> (\<exists>i<4. kw_counts s1 = (kw_counts s)[i := kw_counts s ! i + 1])"
      by blast
  qed
  have b: "th_total (fst (backfill_themes e ts d uc w)) = length ts"
    using themes_loop_sum [of e d ts _ w]
    by (simp add: backfill_themes_def Let_def)
  have c: "uc \<and> claude e \<noteq> None \<longrightarrow>
        sum_list (th_counts (fst (backfill_themes e ts d uc w))) = length ts"
    using themes_loop_sum [of e d ts _ w]
    by (simp add: backfill_themes_def Let_def th_counts_def)
  have d: "\<not> (uc \<and> claude e \<noteq> None) \<longrightarrow>
        backfill_themes e ts d uc w =
          (\<lparr>th_total = length ts, th_success = 0, th_no_overview = 0, th_error = 0\<rparr>, w)"
    by (simp add: backfill_themes_def Let_def)
  from a i b c d themes_iteration_counts [of e d t s' w]
  show ?thesis
    by (intro conjI)
qed

theorem C3_outcome_counts_witness:
  "list_all (keywords_record_ok demo_env)
      [demo_title 1 ''movie'', demo_title 3 ''movie'', demo_title 7 ''movie'']
   \<and> fst (backfill_keywords_batch demo_env
       [demo_title 1 ''movie'', demo_title 3 ''movie'', demo_title 7 ''movie''] False demo_world)
      = Inr \<lparr>kw_total = 3, kw_success = 1, kw_no_keywords_found = 0, kw_api_error = 1, kw_db_error = 1\<rparr>
   \<and> sum_list (kw_counts \<lparr>kw_total = 3, kw_success = 1, kw_no_keywords_found = 0,
                            kw_api_error = 1, kw_db_error = 1\<rparr>) = 3
   \<and> True \<and> claude demo_env \<noteq> None
   \<and> fst (backfill_themes demo_env [demo_title 1 ''movie'', blank_title, unknown_title] False True demo_world)
      = \<lparr>th_total = 3, th_success = 1, th_no_overview = 0, th_error = 2\<rparr>
   \<and> sum_list (th_counts (fst (backfill_themes demo_env
       [demo_title 1 ''movie'', blank_title, unknown_title] False True demo_world))) = 3
   \<and> backfill_themes demo_env [blank_title] False False demo_world
      = (\<lparr>th_total = 1, th_success = 0, th_no_overview = 0, th_error = 0\<rparr>, demo_world)"
proof -
  let ?ks = "[demo_title 1 ''movie'', demo_title 3 ''movie'', demo_title 7 ''movie'']"
  let ?ts = "[demo_title 1 ''movie'', blank_title, unknown_title]"
  have cl: "True \<and> claude demo_env \<noteq> None"
    by (simp add: demo_env_def)
  have "\<exists>r. fst (backfill_keywords_batch demo_env ?ks False demo_world) = Inr r
           \<and> sum_list (kw_counts r) = length ?ks \<and> kw_total r = length ?ks"
    using C3_outcome_counts [of demo_env ?ks False demo_world] demo_keywords_ok by blast
  with demo_keywords_run
  have k: "sum_list (kw_counts \<lparr>kw_total = 3, kw_success = 1, kw_no_keywords_found = 0,
                            kw_api_error = 1, kw_db_error = 1\<rparr>) = 3"
    by auto
  have t: "sum_list (th_counts (fst (backfill_themes demo_env ?ts False True demo_world))) = 3"
    using C3_outcome_counts [of demo_env ?ts False demo_world _ _ True] cl by simp
  have n: "backfill_themes demo_env [blank_title] False False demo_world
      = (\<lparr>th_total = 1, th_success = 0, th_no_overview = 0, th_error = 0\<rparr>, demo_world)"
    using C3_outcome_counts [of demo_env "[blank_title]" False demo_world _ _ False] by simp
  from demo_keywords_ok demo_keywords_run k cl demo_themes_run t n show ?thesis
    by (intro conjI) simp_all
qed

text \<open>
  The claim as it stands fails on \<^verbatim>\<open>backfill_themes\<close> run without
  \<^verbatim>\<open>use_claude\<close>, or without a client: for a batch of one record the counts sum to 0.
\<close>

theorem C3_themes_without_client_counterexample:
  "sum_list (th_counts (fst (backfill_themes demo_env [demo_title 1 ''movie''] False False demo_world)))
     \<noteq> length [demo_title 1 ''movie'']
   \<and> sum_list (th_counts (fst (backfill_themes (demo_env\<lparr>claude := None\<rparr>) [demo_title 1 ''movie''] False True demo_world)))
     \<noteq> length [demo_title 1 ''movie'']"
  by (simp add: backfill_themes_def th_counts_def demo_env_def)

text \<open>
  C4, as amended. For every raw answer of the enrichment model the generator returns the
  tags of the specification's rule (split on commas, trimmed, length strictly between 2
  and 50, at most the first 5), or \<^verbatim>\<open>None\<close> when no candidate survives; the sample
  answer gives exactly revenge and redemption. When no candidate survives, the themes
  engine counts the record under \<^verbatim>\<open>error\<close>: its statistics have no count for an empty
  result.
\<close>

theorem C4_tag_validation:
  "themes_from_text raw =
     (if spec_accepted_tags raw = [] then None else Some (spec_accepted_tags raw))
   \<and> length (spec_accepted_tags raw) \<le> 5
   \<and> (\<forall>t\<in>set (spec_accepted_tags raw). 2 < length t \<and> length t < 50 \<and> strip t = t)
   \<and> themes_from_text (lit ''a, revenge, redemption, xx, this-is-a-very-long-tag-that-exceeds-the-fifty-character-sanity-limit-threshold'')
       = Some [lit ''revenge'', lit ''redemption'']
   \<and> (overview t = Some ov \<and> ov \<noteq> [] \<and> genres t = Some g \<and> claude e = Some create
        \<and> create (title_name t) ov g = Message (raw # rest) \<and> spec_accepted_tags raw = []
      \<longrightarrow> themes_iteration e d t (s, w) =
            (s\<lparr>th_error := th_error s + 1\<rparr>, log_event (ClaudeCreate (title_name t) ov g) w))"
proof -
  have sample: "themes_from_text (lit ''a, revenge, redemption, xx, this-is-a-very-long-tag-that-exceeds-the-fifty-character-sanity-limit-threshold'')
       = Some [lit ''revenge'', lit ''redemption'']"
    by (simp add: themes_from_text_def lit_def strip_def isspace_def)
  have engine: "overview t = Some ov \<and> ov \<noteq> [] \<and> genres t = Some g \<and> claude e = Some create
        \<and> create (title_name t) ov g = Message (raw # rest) \<and> spec_accepted_tags raw = []
      \<longrightarrow> themes_iteration e d t (s, w) =
            (s\<lparr>th_error := th_error s + 1\<rparr>, log_event (ClaudeCreate (title_name t) ov g) w)"
    using themes_zero_survivors [of t ov g e create raw rest d s w] by blast
  from themes_from_text_spec [of raw] spec_accepted_tags_props [of raw] sample engine
  show ?thesis
    by (intro conjI) blast+
qed

theorem C4_tag_validation_witness:
  "spec_accepted_tags (lit ''a, xx'') = []
   \<and> themes_from_text (lit ''a, xx'') = None
   \<and> themes_iteration demo_env False blank_title
        (\<lparr>th_total = 1, th_success = 0, th_no_overview = 0, th_error = 0\<rparr>, demo_world)
      = (\<lparr>th_total = 1, th_success = 0, th_no_overview = 0, th_error = 1\<rparr>,
         log_event (ClaudeCreate (lit ''Blank'') (lit ''A crew plans a heist.'') [lit ''Crime'']) demo_world)
   \<and> spec_accepted_tags (lit '' love ,fear,  a,family, hope,grief ,loyalty'')
      = [lit ''love'', lit ''fear'', lit ''family'', lit ''hope'', lit ''grief'']
   \<and> themes_from_text (lit '' love ,fear,  a,family, hope,grief ,loyalty'')
      = Some [lit ''love'', lit ''fear'', lit ''family'', lit ''hope'', lit ''grief'']"
proof -
  have z: "spec_accepted_tags (lit ''a, xx'') = []"
    by (simp add: spec_accepted_tags_def lit_def strip_def isspace_def)
  have f: "spec_accepted_tags (lit '' love ,fear,  a,family, hope,grief ,loyalty'')
      = [lit ''love'', lit ''fear'', lit ''family'', lit ''hope'', lit ''grief'']"
    by (simp add: spec_accepted_tags_def lit_def strip_def isspace_def)
  have pre: "overview blank_title = Some (lit ''A crew plans a heist.'')
      \<and> lit ''A crew plans a heist.'' \<noteq> [] \<and> genres blank_title = Some [lit ''Crime'']
      \<and> claude demo_env = Some demo_create
      \<and> demo_create (title_name blank_title) (lit ''A crew plans a heist.'') [lit ''Crime''] = Message (lit ''a, xx'' # [])
      \<and> spec_accepted_tags (lit ''a, xx'') = []"
    using z by (simp add: demo_defs lit_def)
  note inst = C4_tag_validation [of "lit ''a, xx''" blank_title "lit ''A crew plans a heist.''"
      "[lit ''Crime'']" demo_env demo_create "[]" False
      "\<lparr>th_total = 1, th_success = 0, th_no_overview = 0, th_error = 0\<rparr>" demo_world]
  have n: "themes_from_text (lit ''a, xx'') = None"
    using inst z by simp
  have it: "themes_iteration demo_env False blank_title
        (\<lparr>th_total = 1, th_success = 0, th_no_overview = 0, th_error = 0\<rparr>, demo_world)
      = (\<lparr>th_total = 1, th_success = 0, th_no_overview = 0, th_error = 1\<rparr>,
         log_event (ClaudeCreate (lit ''Blank'') (lit ''A crew plans a heist.'') [lit ''Crime'']) demo_world)"
    using inst pre by (simp add: blank_title_def)
  have b: "themes_from_text (lit '' love ,fear,  a,family, hope,grief ,loyalty'')
      = Some [lit ''love'', lit ''fear'', lit ''family'', lit ''hope'', lit ''grief'']"
    using C4_tag_validation [of "lit '' love ,fear,  a,family, hope,grief ,loyalty''"] f by simp
  from z n it f b show ?thesis by blast
qed

text \<open>
  The claim as it stands says that a record with no surviving candidate is classified
  upstream-empty. In the code such a record (the first below) is counted under
  \<^verbatim>\<open>error\<close>, as is a record on which the model call fails (the second).
\<close>

theorem C4_zero_survivors_counterexample:
  "fst (backfill_themes demo_env [blank_title] False True demo_world) =
     \<lparr>th_total = 1, th_success = 0, th_no_overview = 0, th_error = 1\<rparr>
   \<and> fst (backfill_themes demo_env [unknown_title] False True demo_world) =
     \<lparr>th_total = 1, th_success = 0, th_no_overview = 0, th_error = 1\<rparr>"
  by (simp add: themes_eval demo_defs)

text \<open>
  C5. The claim: keywords are read under \<^verbatim>\<open>keywords\<close> for a movie and under
  \<^verbatim>\<open>results\<close> otherwise, and a response without that key yields an empty result, not
  a crash. The code reads the right key and does not crash
  (\<open>fetch_tmdb_keywords_envelope\<close>, \<open>fetch_tmdb_keywords_missing_key\<close>), but the list it
  takes as empty is returned as \<^verbatim>\<open>None\<close>, the value of a failed request: the record
  is counted under \<^verbatim>\<open>api_error\<close>, as the record of a connection failure is.
\<close>

theorem C5_missing_envelope_key:
  "fetch_tmdb_keywords demo_env 4 ''movie'' demo_world =
     (None, log_event (HttpGet ''https://api.themoviedb.org/3/movie/4/keywords'') demo_world)
   \<and> fst (backfill_keywords_batch demo_env [demo_title 4 ''movie''] False demo_world)
     = Inr \<lparr>kw_total = 1, kw_success = 0, kw_no_keywords_found = 0, kw_api_error = 1, kw_db_error = 0\<rparr>
   \<and> fst (backfill_keywords_batch demo_env [demo_title 3 ''movie''] False demo_world)
     = Inr \<lparr>kw_total = 1, kw_success = 0, kw_no_keywords_found = 0, kw_api_error = 1, kw_db_error = 0\<rparr>"
  by (simp add: keywords_eval demo_defs)

text \<open>
  C6. The claim: in a dry run the persist function is never invoked, yet every record
  whose enrichment yields a valid value is counted as updated in the statistics. The
  code never persists in a dry run (\<open>dry_run_persists_nothing\<close>), and counts every
  valid record when no record raises (\<open>backfill_keywords_batch_dry_stats\<close>). But the
  progress line of an iteration formats the popularity outside any \<^verbatim>\<open>try\<close>: on a
  record whose popularity is null it raises \<^verbatim>\<open>TypeError\<close>, the function returns no
  statistics, and the records already enriched are counted nowhere. Below, both
  records have a valid fetch; the first is fetched and paced, the second raises.
\<close>

theorem C6_dry_run_statistics_lost:
  "keywords_valid demo_env (demo_title 1 ''movie'')
   \<and> keywords_valid demo_env (null_popularity_title 7)
   \<and> backfill_keywords_batch demo_env [demo_title 1 ''movie'', null_popularity_title 7] True demo_world
     = (Inl TypeError,
        demo_world\<lparr>trace := [HttpGet ''https://api.themoviedb.org/3/movie/1/keywords'',
                               Sleep RATE_LIMIT_DELAY]\<rparr>)"
  by (simp add: keywords_valid_def no_world_def keywords_eval demo_defs)

text \<open>
  C7. The claim: every per-record error is recovered inside the record's iteration and
  never aborts the batch, so that all later records are still processed. The code
  recovers the errors it catches: a failed request counts \<^verbatim>\<open>api_error\<close>
  (\<open>keywords_iteration_transport_error\<close>), a store that raises makes the update return
  \<^verbatim>\<open>False\<close> and counts \<^verbatim>\<open>db_error\<close> (\<open>update_keywords_in_db_raises\<close>,
  \<open>keywords_iteration_store_error\<close>). But a malformed response whose keyword name is
  null passes the fetch and raises \<^verbatim>\<open>TypeError\<close> in the join of the line that reports
  the keywords, outside any \<^verbatim>\<open>try\<close>; so does a null popularity in the progress line.
  The exception leaves the loop: the record after it, which alone is fetched and
  updated, is never requested.
\<close>

theorem C7_error_aborts_batch:
  "backfill_keywords_batch demo_env [demo_title 8 ''movie'', demo_title 1 ''movie''] False demo_world
     = (Inl TypeError,
        demo_world\<lparr>trace := [HttpGet ''https://api.themoviedb.org/3/movie/8/keywords'']\<rparr>)
   \<and> backfill_keywords_batch demo_env [null_popularity_title 7, demo_title 1 ''movie''] False demo_world
     = (Inl TypeError, demo_world)
   \<and> fst (backfill_keywords_batch demo_env [demo_title 1 ''movie''] False demo_world)
     = Inr \<lparr>kw_total = 1, kw_success = 1, kw_no_keywords_found = 0, kw_api_error = 0, kw_db_error = 0\<rparr>"
  by (simp add: keywords_eval demo_defs)

text \<open>
  C8. Running the keywords engine twice with \<^verbatim>\<open>dry_run\<close> on the same store state
  gives the same result, statistics or exception: the first run leaves the store as it
  was, so the second run selects the same batch (\<open>sel\<close> is any selection computed from
  the store, as \<^verbatim>\<open>get_titles_missing_keywords\<close> is), and what a dry run returns depends
  on the batch and the metadata API only. The metadata API is a function of the request
  here: it answers a URL the same way in both runs.
\<close>

theorem C8_dry_run_idempotent:
  assumes "backfill_keywords_batch e (sel (store w)) True w = (s1, w1)"
    and "backfill_keywords_batch e (sel (store w1)) True w1 = (s2, w2)"
  shows "s2 = s1 \<and> store w1 = store w \<and> store w2 = store w"
proof -
  have st1: "store w1 = store w"
    using backfill_keywords_batch_dry_store [of e "sel (store w)" w] assms(1) by simp
  have st2: "store w2 = store w1"
    using backfill_keywords_batch_dry_store [of e "sel (store w1)" w1] assms(2) by simp
  have "s1 = fst (backfill_keywords_batch e (sel (store w)) True w)"
    and "s2 = fst (backfill_keywords_batch e (sel (store w)) True w1)"
    using assms st1 by simp_all
  then have "s2 = s1"
    using backfill_keywords_batch_dry_world [of e "sel (store w)" w1 w] by simp
  with st1 st2 show ?thesis by simp
qed

theorem C8_dry_run_idempotent_witness:
  "fst (backfill_keywords_batch demo_env (demo_select (store demo_world)) True demo_world)
     = Inr \<lparr>kw_total = 2, kw_success = 2, kw_no_keywords_found = 0, kw_api_error = 0, kw_db_error = 0\<rparr>
   \<and> fst (backfill_keywords_batch demo_env
        (demo_select (store (snd (backfill_keywords_batch demo_env (demo_select (store demo_world)) True demo_world))))
        True (snd (backfill_keywords_batch demo_env (demo_select (store demo_world)) True demo_world)))
     = Inr \<lparr>kw_total = 2, kw_success = 2, kw_no_keywords_found = 0, kw_api_error = 0, kw_db_error = 0\<rparr>
   \<and> fst (backfill_keywords_batch demo_env
        (demo_select (store (snd (backfill_keywords_batch demo_env (demo_select (store demo_world)) False demo_world))))
        True (snd (backfill_keywords_batch demo_env (demo_select (store demo_world)) False demo_world)))
     = Inr \<lparr>kw_total = 1, kw_success = 1, kw_no_keywords_found = 0, kw_api_error = 0, kw_db_error = 0\<rparr>"
proof -
  let ?b = "backfill_keywords_batch demo_env (demo_select (store demo_world)) True demo_world"
  have sel: "demo_select (store demo_world) = [demo_title 1 ''movie'', demo_title 7 ''movie'']"
    by (simp add: demo_select_def demo_defs)
  have first: "fst ?b = Inr \<lparr>kw_total = 2, kw_success = 2, kw_no_keywords_found = 0, kw_api_error = 0, kw_db_error = 0\<rparr>"
    unfolding sel by (simp add: keywords_eval demo_defs)
  have again: "fst (backfill_keywords_batch demo_env (demo_select (store (snd ?b))) True (snd ?b)) = fst ?b"
    by (rule C8_dry_run_idempotent [OF surjective_pairing surjective_pairing, THEN conjunct1])
  have wet: "fst (backfill_keywords_batch demo_env
        (demo_select (store (snd (backfill_keywords_batch demo_env (demo_select (store demo_world)) False demo_world))))
        True (snd (backfill_keywords_batch demo_env (demo_select (store demo_world)) False demo_world)))
     = Inr \<lparr>kw_total = 1, kw_success = 1, kw_no_keywords_found = 0, kw_api_error = 0, kw_db_error = 0\<rparr>"
    unfolding sel by (simp add: demo_select_def keywords_eval demo_defs)
  from first again wet show ?thesis by simp
qed



text \<open>
  C10. The statistics printer of the keywords script divides success by total with no
  guard: on the statistics of an empty batch, and on no others, it raises
  \<^verbatim>\<open>ZeroDivisionError\<close>, and otherwise its rate is success divided by total, times
  100. The printer of the themes and overview script never raises: it computes the same
  rate when the total is strictly positive, and prints no rate when it is zero, as for
  the statistics of an empty batch.
\<close>

theorem C10_print_stats_division:
  "backfill_keywords_batch e [] d w =
     (Inr \<lparr>kw_total = 0, kw_success = 0, kw_no_keywords_found = 0, kw_api_error = 0, kw_db_error = 0\<rparr>, w)
   \<and> print_stats_keywords
       \<lparr>kw_total = 0, kw_success = 0, kw_no_keywords_found = 0, kw_api_error = 0, kw_db_error = 0\<rparr>
     = Inl ZeroDivisionError
   \<and> (print_stats_keywords s = Inl ZeroDivisionError \<longleftrightarrow> kw_total s = 0)
   \<and> (fst (backfill_keywords_batch e ts d w) = Inr s \<longrightarrow>
        (print_stats_keywords s = Inl ZeroDivisionError \<longleftrightarrow> ts = [])
        \<and> (ts \<noteq> [] \<longrightarrow>
             print_stats_keywords s = Inr (of_nat (kw_success s) / of_nat (length ts) * 100)))
   \<and> (0 < kw_total s \<longrightarrow>
        print_stats_keywords s = Inr (of_nat (kw_success s) / of_nat (kw_total s) * 100)
        \<and> (\<exists>r. print_stats_keywords s = Inr r \<and> r * of_nat (kw_total s) = 100 * of_nat (kw_success s)))
   \<and> print_stats_themes_overview st =
       Inr (if 0 < stats_total st
            then Some (of_nat (stats_success st) / of_nat (stats_total st) * 100) else None)
   \<and> (0 < stats_total st \<longrightarrow>
        (\<exists>r. print_stats_themes_overview st = Inr (Some r)
             \<and> r * of_nat (stats_total st) = 100 * of_nat (stats_success st)))
   \<and> print_stats_themes_overview (OverviewStats (fst (backfill_overviews e [] d w))) = Inr None
   \<and> print_stats_themes_overview (ThemesStats (fst (backfill_themes e [] d uc w))) = Inr None"
proof -
  have k0: "backfill_keywords_batch e [] d w =
     (Inr \<lparr>kw_total = 0, kw_success = 0, kw_no_keywords_found = 0, kw_api_error = 0, kw_db_error = 0\<rparr>, w)"
    by (simp add: backfill_keywords_batch_def)
  have k1: "print_stats_keywords
       \<lparr>kw_total = 0, kw_success = 0, kw_no_keywords_found = 0, kw_api_error = 0, kw_db_error = 0\<rparr>
     = Inl ZeroDivisionError"
    by (simp add: print_stats_keywords_def)
  have k2: "print_stats_keywords s = Inl ZeroDivisionError \<longleftrightarrow> kw_total s = 0"
    by (simp add: print_stats_keywords_def)
  have kb: "fst (backfill_keywords_batch e ts d w) = Inr s \<longrightarrow>
        (print_stats_keywords s = Inl ZeroDivisionError \<longleftrightarrow> ts = [])
        \<and> (ts \<noteq> [] \<longrightarrow>
             print_stats_keywords s = Inr (of_nat (kw_success s) / of_nat (length ts) * 100))"
  proof
    assume r: "fst (backfill_keywords_batch e ts d w) = Inr s"
    then have "kw_total s = length ts"
      using keywords_loop_sum [of e d ts _ w s] by (simp add: backfill_keywords_batch_def)
    then show "(print_stats_keywords s = Inl ZeroDivisionError \<longleftrightarrow> ts = [])
        \<and> (ts \<noteq> [] \<longrightarrow>
             print_stats_keywords s = Inr (of_nat (kw_success s) / of_nat (length ts) * 100))"
      by (simp add: print_stats_keywords_def)
  qed
  have k3: "0 < kw_total s \<longrightarrow>
        print_stats_keywords s = Inr (of_nat (kw_success s) / of_nat (kw_total s) * 100)
        \<and> (\<exists>r. print_stats_keywords s = Inr r \<and> r * of_nat (kw_total s) = 100 * of_nat (kw_success s))"
    by (simp add: print_stats_keywords_def)
  have t1: "print_stats_themes_overview st =
       Inr (if 0 < stats_total st
            then Some (of_nat (stats_success st) / of_nat (stats_total st) * 100) else None)"
    by (simp add: print_stats_themes_overview_def)
  have t2: "0 < stats_total st \<longrightarrow>
        (\<exists>r. print_stats_themes_overview st = Inr (Some r)
             \<and> r * of_nat (stats_total st) = 100 * of_nat (stats_success st))"
    by (simp add: print_stats_themes_overview_def)
  have t3: "print_stats_themes_overview (OverviewStats (fst (backfill_overviews e [] d w))) = Inr None"
    by (simp add: print_stats_themes_overview_def backfill_overviews_def)
  have t4: "print_stats_themes_overview (ThemesStats (fst (backfill_themes e [] d uc w))) = Inr None"
    by (simp add: print_stats_themes_overview_def backfill_themes_def Let_def)
  from k0 k1 k2 kb k3 t1 t2 t3 t4 show ?thesis
    by (intro conjI)
qed

theorem C10_print_stats_division_witness:
  "fst (backfill_keywords_batch demo_env
          [demo_title 1 ''movie'', demo_title 2 ''movie'', demo_title 3 ''movie''] False demo_world)
     = Inr \<lparr>kw_total = 3, kw_success = 1, kw_no_keywords_found = 0, kw_api_error = 2, kw_db_error = 0\<rparr>
   \<and> print_stats_keywords
     \<lparr>kw_total = 3, kw_success = 1, kw_no_keywords_found = 0, kw_api_error = 2, kw_db_error = 0\<rparr>
     = Inr (100 / 3)
   \<and> print_stats_keywords
     \<lparr>kw_total = 4, kw_success = 4, kw_no_keywords_found = 0, kw_api_error = 0, kw_db_error = 0\<rparr>
     = Inr 100
   \<and> print_stats_themes_overview
       (ThemesStats \<lparr>th_total = 3, th_success = 1, th_no_overview = 0, th_error = 2\<rparr>)
     = Inr (Some (100 / 3))
   \<and> print_stats_themes_overview
       (OverviewStats \<lparr>ov_total = 0, ov_success = 0, ov_not_found = 0, ov_error = 0\<rparr>)
     = Inr None"
proof -
  let ?s = "\<lparr>kw_total = 3, kw_success = 1, kw_no_keywords_found = 0, kw_api_error = 2, kw_db_error = 0\<rparr>"
  let ?f = "\<lparr>kw_total = 4, kw_success = 4, kw_no_keywords_found = 0, kw_api_error = 0, kw_db_error = 0\<rparr>"
  let ?t = "ThemesStats \<lparr>th_total = 3, th_success = 1, th_no_overview = 0, th_error = 2\<rparr>"
  let ?o = "OverviewStats \<lparr>ov_total = 0, ov_success = 0, ov_not_found = 0, ov_error = 0\<rparr>"
  have run: "fst (backfill_keywords_batch demo_env
          [demo_title 1 ''movie'', demo_title 2 ''movie'', demo_title 3 ''movie''] False demo_world) = Inr ?s"
    by (simp add: keywords_eval demo_defs)
  have a: "print_stats_keywords ?s = Inr (100 / 3)"
    using C10_print_stats_division [of demo_env False demo_world ?s
        "[demo_title 1 ''movie'', demo_title 2 ''movie'', demo_title 3 ''movie'']"] run
    by simp
  have b: "print_stats_keywords ?f = Inr 100"
    using C10_print_stats_division [of _ _ _ ?f] by simp
  have c: "print_stats_themes_overview ?t = Inr (Some (100 / 3))"
    using C10_print_stats_division [of _ _ _ _ _ ?t] by simp
  have d: "print_stats_themes_overview ?o = Inr None"
    using C10_print_stats_division [of _ _ _ _ _ ?o] by simp
  from run a b c d show ?thesis by (intro conjI)
qed

end
